theory Spec2Isabelle
  imports Complex_Main "HOL-Library.Finite_Map"
begin

section \<open>JavaScript values\<close>

text \<open>
  The configurator is written in JavaScript and passes untyped JSON around: argument bags
  of function calls, agent commands, partial vehicle updates. The embedding therefore works
  on a datatype of JavaScript values. A number is a finite real, an infinity or NaN (the two
  zeros are identified; no theorem below depends on rounding). An object is a finite map
  from property names to values. \<open>JBuiltin k\<close> stands for the member \<open>k\<close> that every plain
  object inherits from \<open>Object.prototype\<close> (a built-in function, or the prototype object
  itself for \<open>__proto__\<close>); it is never part of an input, it only arises as the result of a
  property lookup with a computed key.
\<close>

datatype jsnum = NaN | NegInf | Fin real | PosInf

datatype jsval =
    JUndefined
  | JNull
  | JBool bool
  | JNum jsnum
  | JStr string
  | JArr "jsval list"
  | JObj "(string, jsval) fmap"
  | JBuiltin string

text \<open>Exceptions the code can raise; every \<open>throw\<close> of the source and every
  property access on \<open>null\<close>/\<open>undefined\<close> is an \<open>Inl\<close> branch of the model.\<close>

datatype exn = TypeError | UnknownVehicleModel jsval | InvalidLiftHeight

text \<open>\<open>ToBoolean\<close>: the falsy values are undefined, null, false, 0, NaN and the empty string.\<close>

fun truthy :: "jsval \<Rightarrow> bool" where
  "truthy JUndefined = False"
| "truthy JNull = False"
| "truthy (JBool b) = b"
| "truthy (JNum n) = (n \<noteq> NaN \<and> n \<noteq> Fin 0)"
| "truthy (JStr s) = (s \<noteq> [])"
| "truthy (JArr xs) = True"
| "truthy (JObj m) = True"
| "truthy (JBuiltin k) = True"

definition nullish :: "jsval \<Rightarrow> bool" where
  "nullish v = (v = JUndefined \<or> v = JNull)"

text \<open>The operator \<open>a || b\<close>.\<close>

definition js_or :: "jsval \<Rightarrow> jsval \<Rightarrow> jsval" where
  "js_or a b = (if truthy a then a else b)"

text \<open>An object literal.\<close>

definition obj :: "(string \<times> jsval) list \<Rightarrow> jsval" where
  "obj kvs = JObj (fmap_of_list kvs)"

text \<open>
  \<open>own v k\<close> is the property read \<open>v.k\<close> for a receiver that is not null or undefined and a
  literal key \<open>k\<close> that no built-in prototype defines (all keys the code spells out, such as
  \<open>model_id\<close> or \<open>functionCall\<close>, are of this kind): the stored value when \<open>v\<close> is an object
  that has the property, and undefined otherwise. Reads on null or undefined are guarded by
  \<open>nullish\<close> at each call site, where they raise \<open>TypeError\<close>.
\<close>

definition own :: "jsval \<Rightarrow> string \<Rightarrow> jsval" where
  "own v k = (case v of
      JObj m \<Rightarrow> (case fmlookup m k of Some x \<Rightarrow> x | None \<Rightarrow> JUndefined)
    | _ \<Rightarrow> JUndefined)"

text \<open>Optional chaining \<open>v?.k\<close>.\<close>

definition optchain :: "jsval \<Rightarrow> string \<Rightarrow> jsval" where
  "optchain v k = (if nullish v then JUndefined else own v k)"

text \<open>
  The names every plain object inherits from \<open>Object.prototype\<close>. A lookup \<open>o[k]\<close> with a
  computed key on an object literal finds them when \<open>o\<close> has no own property \<open>k\<close>.
\<close>

definition Object_prototype_keys :: "string list" where
  "Object_prototype_keys =
    [''constructor'', ''toString'', ''toLocaleString'', ''valueOf'', ''hasOwnProperty'',
     ''isPrototypeOf'', ''propertyIsEnumerable'', ''__proto__'', ''__defineGetter__'',
     ''__defineSetter__'', ''__lookupGetter__'', ''__lookupSetter__'']"

definition lookup_key :: "(string, jsval) fmap \<Rightarrow> string \<Rightarrow> jsval" where
  "lookup_key m k = (case fmlookup m k of
      Some x \<Rightarrow> x
    | None \<Rightarrow> (if k \<in> set Object_prototype_keys then JBuiltin k else JUndefined))"

text \<open>\<open>typeof v === 'object'\<close> and \<open>typeof v === 'number'\<close>.\<close>

fun typeof_object :: "jsval \<Rightarrow> bool" where
  "typeof_object JNull = True"
| "typeof_object (JArr xs) = True"
| "typeof_object (JObj m) = True"
| "typeof_object (JBuiltin k) = (k = ''__proto__'')"
| "typeof_object v = False"

fun typeof_number :: "jsval \<Rightarrow> bool" where
  "typeof_number (JNum n) = True"
| "typeof_number v = False"

text \<open>Comparison of numbers; every comparison with NaN is false.\<close>

fun num_lt :: "jsnum \<Rightarrow> jsnum \<Rightarrow> bool" where
  "num_lt NaN b = False"
| "num_lt a NaN = False"
| "num_lt PosInf b = False"
| "num_lt a NegInf = False"
| "num_lt NegInf b = True"
| "num_lt a PosInf = True"
| "num_lt (Fin a) (Fin b) = (a < b)"

subsection \<open>Built-ins and the static catalog\<close>

text \<open>
  The conversions \<open>parseFloat\<close>, \<open>parseInt\<close>, \<open>ToString\<close> and \<open>ToNumber\<close> of the language
  depend on the decimal syntax and rounding of floating point numbers; they are parameters
  of the model, and every theorem holds for all of them.
\<close>

text \<open>
  Modelled from the spec: the static catalog (\<open>vehicleConfigs\<close> is not among the sources), a
  read-only nested structure of maps keyed by identifier: \<open>vehicles\<close>, whose entries carry
  \<open>default_addons\<close> and \<open>addons\<close>, a map from slot names to slots with a map \<open>options\<close>;
  \<open>wheels.rims\<close> and \<open>wheels.tires\<close>; and \<open>defaults\<close>, a VehicleConfiguration. Each map is a
  plain object whose own properties are its entries, and every entry is an object. The
  code reads \<open>default_addons\<close> (undefined when the entry has none) and \<open>addons\<close> (\<open>None\<close>
  when the entry has none) of a vehicle and \<open>options\<close> of a slot; of the entries of the
  other maps it tests the presence only, so they carry no data here.
\<close>

record addon_slot =
  options :: "(string, unit) fmap"

record vehicle_entry =
  default_addons :: jsval
  addons :: "(string, addon_slot) fmap option"

record env =
  parseFloat :: "jsval \<Rightarrow> jsnum"
  parseInt :: "jsval \<Rightarrow> jsnum"
  toStringJS :: "jsval \<Rightarrow> string"
  toNumberJS :: "jsval \<Rightarrow> jsnum"
  vehicles :: "(string, vehicle_entry) fmap"
  rims :: "(string, unit) fmap"
  tires :: "(string, unit) fmap"
  defaults :: "(string, jsval) fmap"

text \<open>
  The lookup \<open>m[k]\<close> in a map of the catalog with a computed key: an entry of the map, or,
  as the map is a plain object, the member of that name that it inherits from
  \<open>Object.prototype\<close>, or undefined. Entries and inherited members are truthy.
\<close>

datatype 'a lookup = Entry 'a | Inherited string | Missing

definition catalog_lookup :: "(string, 'a) fmap \<Rightarrow> string \<Rightarrow> 'a lookup" where
  "catalog_lookup m k = (case fmlookup m k of
      Some x \<Rightarrow> Entry x
    | None \<Rightarrow> (if k \<in> set Object_prototype_keys then Inherited k else Missing))"

fun found :: "'a lookup \<Rightarrow> bool" where
  "found (Entry x) = True"
| "found (Inherited k) = True"
| "found Missing = False"

text \<open>\<open>ToString\<close> (template literals, property keys, \<open>RegExp.test\<close>): a string is itself.\<close>

definition to_string :: "env \<Rightarrow> jsval \<Rightarrow> string" where
  "to_string env v = (case v of JStr s \<Rightarrow> s | _ \<Rightarrow> toStringJS env v)"

section \<open>Function call mapper (src/lib/function-call-mapper.js)\<close>

text \<open>The alias table of \<open>mapFunctionNameToCommandType\<close>.\<close>

definition mapping :: "(string \<times> string) list" where
  "mapping =
    [(''change_vehicle_model'', ''change_model''),
     (''set_vehicle_model'', ''change_model''),
     (''switch_vehicle'', ''change_model''),
     (''change_vehicle_color'', ''change_color''),
     (''set_vehicle_color'', ''change_color''),
     (''change_paint'', ''change_color''),
     (''set_color'', ''change_color''),
     (''adjust_lift'', ''adjust_lift''),
     (''set_lift'', ''adjust_lift''),
     (''change_lift'', ''adjust_lift''),
     (''adjust_suspension'', ''adjust_lift''),
     (''change_rims'', ''change_rims''),
     (''set_rims'', ''change_rims''),
     (''change_wheels'', ''change_rims''),
     (''change_tires'', ''change_tires''),
     (''set_tires'', ''change_tires''),
     (''change_wheel_setup'', ''change_wheel_setup''),
     (''adjust_wheel_setup'', ''change_wheel_setup''),
     (''add_bumper'', ''add_bumper''),
     (''change_bumper'', ''add_bumper''),
     (''set_bumper'', ''add_bumper''),
     (''add_sliders'', ''add_sliders''),
     (''change_sliders'', ''add_sliders''),
     (''set_sliders'', ''add_sliders''),
     (''add_roof_rack'', ''add_roof_rack''),
     (''add_rack'', ''add_roof_rack''),
     (''change_rack'', ''add_roof_rack''),
     (''set_rack'', ''add_roof_rack''),
     (''toggle_spare_tire'', ''toggle_spare_tire''),
     (''set_spare_tire'', ''toggle_spare_tire''),
     (''show_spare_tire'', ''toggle_spare_tire''),
     (''hide_spare_tire'', ''toggle_spare_tire''),
     (''reset_vehicle'', ''reset_vehicle''),
     (''reset_to_defaults'', ''reset_vehicle'')]"

text \<open>\<open>return mapping[functionName] || null\<close>: the key is the function name converted to
  a property key, and the lookup on the object literal follows the prototype chain.\<close>

definition mapFunctionNameToCommandType :: "env \<Rightarrow> jsval \<Rightarrow> jsval" where
  "mapFunctionNameToCommandType env functionName =
     js_or (lookup_key (fmap_of_list (map (\<lambda>(k, c). (k, JStr c)) mapping))
              (to_string env functionName))
           JNull"

text \<open>The command types that the \<open>switch\<close> statements of the mapper and of the update
  handler know.\<close>

definition command_types :: "string list" where
  "command_types =
    [''change_model'', ''change_color'', ''adjust_lift'', ''change_rims'', ''change_tires'',
     ''change_wheel_setup'', ''add_bumper'', ''add_sliders'', ''add_roof_rack'',
     ''toggle_spare_tire'', ''reset_vehicle'']"

definition generateDescription :: "env \<Rightarrow> jsval \<Rightarrow> jsval \<Rightarrow> exn + string" where
  "generateDescription env functionName args =
    (let commandType = mapFunctionNameToCommandType env functionName in
     if commandType = JStr ''change_model'' then
       (if nullish args then Inl TypeError
        else Inr (''Changed vehicle to '' @
                  to_string env (js_or (own args ''model_id'') (JStr ''new model''))))
     else if commandType = JStr ''change_color'' then
       (if nullish args then Inl TypeError
        else if truthy (own args ''color'') \<and> own args ''roughness'' \<noteq> JUndefined then
          Inr (''Changed color to '' @ to_string env (own args ''color'') @
               '' with roughness '' @ to_string env (own args ''roughness''))
        else if truthy (own args ''color'') then
          Inr (''Changed color to '' @ to_string env (own args ''color''))
        else if own args ''roughness'' \<noteq> JUndefined then
          Inr (''Changed paint roughness to '' @ to_string env (own args ''roughness''))
        else Inr ''Changed vehicle appearance'')
     else if commandType = JStr ''adjust_lift'' then
       (if nullish args then Inl TypeError
        else Inr (''Adjusted lift to '' @
                  to_string env (js_or (own args ''lift_height'')
                                   (js_or (own args ''lift'') (JNum (Fin 0)))) @
                  '' inches''))
     else if commandType = JStr ''change_rims'' then
       (if nullish args then Inl TypeError
        else Inr (''Changed rims to '' @
                  to_string env (js_or (own args ''rim_id'') (JStr ''new rims''))))
     else if commandType = JStr ''change_tires'' then
       (if nullish args then Inl TypeError
        else Inr (''Changed tires to '' @
                  to_string env (js_or (own args ''tire_id'') (JStr ''new tires''))))
     else if commandType = JStr ''change_wheel_setup'' then
       Inr ''Updated wheel configuration''
     else if commandType = JStr ''add_bumper'' then
       (if nullish args then Inl TypeError
        else Inr (''Set bumper to '' @
                  to_string env (js_or (own args ''bumper_type'')
                                   (js_or (own args ''type'') (JStr ''custom'')))))
     else if commandType = JStr ''add_sliders'' then
       (if nullish args then Inl TypeError
        else Inr (''Set sliders to '' @
                  to_string env (js_or (own args ''slider_type'')
                                   (js_or (own args ''type'') (JStr ''custom'')))))
     else if commandType = JStr ''add_roof_rack'' then
       (if nullish args then Inl TypeError
        else Inr (''Set roof rack to '' @
                  to_string env (js_or (own args ''rack_type'')
                                   (js_or (own args ''type'') (JStr ''custom'')))))
     else if commandType = JStr ''toggle_spare_tire'' then
       (if nullish args then Inl TypeError
        else if truthy (own args ''enabled'') then Inr ''Enabled spare tire''
        else Inr ''Disabled spare tire'')
     else if commandType = JStr ''reset_vehicle'' then
       Inr ''Reset vehicle to defaults''
     else Inr (''Executed '' @ to_string env functionName))"

definition transformParameters :: "jsval \<Rightarrow> jsval \<Rightarrow> exn + jsval" where
  "transformParameters commandType args =
    (if commandType = JStr ''change_model'' then
       (if nullish args then Inl TypeError
        else Inr (obj [(''model_id'', own args ''model_id'')]))
     else if commandType = JStr ''change_color'' then
       (if nullish args then Inl TypeError
        else Inr (obj [(''color'', own args ''color''),
                       (''roughness'', own args ''roughness'')]))
     else if commandType = JStr ''adjust_lift'' then
       (if nullish args then Inl TypeError
        else Inr (obj [(''lift_height'',
                        js_or (own args ''lift_height'')
                          (js_or (own args ''lift'') (JNum (Fin 0))))]))
     else if commandType = JStr ''change_rims'' then
       (if nullish args then Inl TypeError
        else Inr (obj [(''rim_id'', own args ''rim_id''),
                       (''color'', js_or (own args ''color'') (own args ''rim_color'')),
                       (''secondary_color'',
                        js_or (own args ''secondary_color'')
                          (own args ''rim_color_secondary''))]))
     else if commandType = JStr ''change_tires'' then
       (if nullish args then Inl TypeError
        else Inr (obj [(''tire_id'', own args ''tire_id''),
                       (''diameter'',
                        js_or (own args ''diameter'') (own args ''tire_diameter''))]))
     else if commandType = JStr ''change_wheel_setup'' then
       (if nullish args then Inl TypeError
        else Inr (obj [(''rim_diameter'', own args ''rim_diameter''),
                       (''rim_width'', own args ''rim_width''),
                       (''tire_diameter'', own args ''tire_diameter'')]))
     else if commandType = JStr ''add_bumper'' then
       (if nullish args then Inl TypeError
        else Inr (obj [(''bumper_type'',
                        js_or (own args ''bumper_type'') (own args ''type''))]))
     else if commandType = JStr ''add_sliders'' then
       (if nullish args then Inl TypeError
        else Inr (obj [(''slider_type'',
                        js_or (own args ''slider_type'') (own args ''type''))]))
     else if commandType = JStr ''add_roof_rack'' then
       (if nullish args then Inl TypeError
        else Inr (obj [(''rack_type'',
                        js_or (own args ''rack_type'') (own args ''type''))]))
     else if commandType = JStr ''toggle_spare_tire'' then
       (if nullish args then Inl TypeError
        else Inr (obj [(''enabled'',
                        if own args ''enabled'' \<noteq> JUndefined then own args ''enabled''
                        else JBool True)]))
     else if commandType = JStr ''reset_vehicle'' then Inr (obj [])
     else Inr args)"

text \<open>\<open>parseFunctionCall\<close> returns the command object, or null.\<close>

definition parseFunctionCall :: "env \<Rightarrow> jsval \<Rightarrow> exn + jsval" where
  "parseFunctionCall env functionCall =
    (if \<not> truthy functionCall \<or> \<not> truthy (own functionCall ''name'') then Inr JNull
     else
       let name = own functionCall ''name'';
           args = own functionCall ''args'';
           fid = own functionCall ''id'';
           commandType = mapFunctionNameToCommandType env name
       in if \<not> truthy commandType then Inr JNull
          else (case transformParameters commandType (js_or args (obj [])) of
                  Inl e \<Rightarrow> Inl e
                | Inr parameters \<Rightarrow>
                    (case generateDescription env name (js_or args (obj [])) of
                       Inl e \<Rightarrow> Inl e
                     | Inr description \<Rightarrow>
                         Inr (obj [(''command_type'', commandType),
                                   (''parameters'', parameters),
                                   (''description'', JStr description),
                                   (''client_id'',
                                    js_or (optchain args ''client_id'') (JStr ''default'')),
                                   (''function_call_id'', fid)]))))"

text \<open>The loop \<open>for (const part of parts) { if (part.functionCall) ... }\<close>, shared by the
  two \<open>parts\<close> scans of \<open>parseFunctionCallsFromEvent\<close>; \<open>commands\<close> is the array being filled.\<close>

fun scanParts :: "env \<Rightarrow> jsval list \<Rightarrow> jsval list \<Rightarrow> exn + jsval list" where
  "scanParts env [] commands = Inr commands"
| "scanParts env (part # rest) commands =
    (if nullish part then Inl TypeError
     else if truthy (own part ''functionCall'') then
       (case parseFunctionCall env (own part ''functionCall'') of
          Inl e \<Rightarrow> Inl e
        | Inr command \<Rightarrow>
            scanParts env rest (if truthy command then commands @ [command] else commands))
     else scanParts env rest commands)"

definition parseFunctionCallsFromEvent :: "env \<Rightarrow> jsval \<Rightarrow> exn + jsval list" where
  "parseFunctionCallsFromEvent env eventData =
    (if \<not> truthy eventData then Inr []
     else
       (case (if truthy (own eventData ''functionCall'') then
                (case parseFunctionCall env (own eventData ''functionCall'') of
                   Inl e \<Rightarrow> Inl e
                 | Inr command \<Rightarrow> Inr (if truthy command then [command] else []))
              else Inr []) of
          Inl e \<Rightarrow> Inl e
        | Inr commands1 \<Rightarrow>
            (case (if truthy (own eventData ''content'') then
                     (case own (own eventData ''content'') ''parts'' of
                        JArr parts \<Rightarrow> scanParts env parts commands1
                      | _ \<Rightarrow> Inr commands1)
                   else Inr commands1) of
               Inl e \<Rightarrow> Inl e
             | Inr commands2 \<Rightarrow>
                 (case own eventData ''parts'' of
                    JArr parts \<Rightarrow> scanParts env parts commands2
                  | _ \<Rightarrow> Inr commands2))))"

section \<open>The state store\<close>

text \<open>
  The store keeps the live vehicle configuration (\<open>currentVehicle\<close>) and the saved-vehicles
  collection (\<open>savedVehicles\<close>), both plain objects. Its notification channel is
  fire-and-forget and is left out.
\<close>

record store =
  currentVehicle :: "(string, jsval) fmap"
  savedVehicles :: "(string, jsval) fmap"

text \<open>Decimal spelling of an array index, the property name of an array element.\<close>

fun index_key :: "nat \<Rightarrow> string" where
  "index_key n =
     (if n < 10 then [''0123456789'' ! n]
      else index_key (n div 10) @ [''0123456789'' ! (n mod 10)])"

declare index_key.simps [simp del]

text \<open>The own enumerable properties that an object spread or \<open>Object.assign\<close> copies from a
  value: those of an object, the elements of an array under their indices, nothing for other
  values (a string never reaches \<open>setVehicle\<close>).\<close>

definition props_of :: "jsval \<Rightarrow> (string, jsval) fmap" where
  "props_of v = (case v of
      JObj m \<Rightarrow> m
    | JArr xs \<Rightarrow> fmap_of_list (zip (map index_key [0..<length xs]) xs)
    | _ \<Rightarrow> fmempty)"

text \<open>
  Modelled from the spec: \<open>setVehicle\<close> of the state store (store/gameStore is not among the
  sources); the spec gives its contract as "\<open>set(partialOrFn)\<close> (accepts either a partial
  object merged shallowly, or a mutator function applied to a draft)". \<open>setVehicle\<close> is the
  object form.
\<close>

definition setVehicle :: "jsval \<Rightarrow> store \<Rightarrow> store" where
  "setVehicle updates s = s\<lparr>currentVehicle := currentVehicle s ++\<^sub>f props_of updates\<rparr>"

text \<open>A field of the live configuration, \<open>currentVehicle.k\<close>.\<close>

definition vehicle_field :: "store \<Rightarrow> string \<Rightarrow> jsval" where
  "vehicle_field s k = own (JObj (currentVehicle s)) k"

text \<open>
  Modelled from the spec: the mutator form of \<open>setVehicle\<close>, for the mutator that the callers
  pass to set an addon, \<open>(vehicle) => { if (!vehicle.addons) { vehicle.addons = {} };
  vehicle.addons[k] = v }\<close>. The spec types \<open>addons\<close> as a mapping from slot names to option
  identifiers; when \<open>addons\<close> holds a truthy value that is no such object, the model has the
  assignment raise, and nothing has been written then.
\<close>

definition assign_addon :: "string \<Rightarrow> jsval \<Rightarrow> store \<Rightarrow> exn + store" where
  "assign_addon k v s =
    (let addons = vehicle_field s ''addons'' in
     if \<not> truthy addons then
       Inr (s\<lparr>currentVehicle := fmupd ''addons'' (obj [(k, v)]) (currentVehicle s)\<rparr>)
     else (case addons of
             JObj m \<Rightarrow>
               Inr (s\<lparr>currentVehicle := fmupd ''addons'' (JObj (fmupd k v m)) (currentVehicle s)\<rparr>)
           | _ \<Rightarrow> Inl TypeError))"


section \<open>Vehicle update handler (agent path)\<close>

subsection \<open>Command handlers\<close>

text \<open>Each handler destructures its parameters first, which raises on null or undefined.\<close>

definition handleChangeModel :: "env \<Rightarrow> jsval \<Rightarrow> store \<Rightarrow> exn + store" where
  "handleChangeModel env params s =
    (if nullish params then Inl TypeError
     else let model_id = own params ''model_id'' in
       if \<not> found (catalog_lookup (vehicles env) (to_string env model_id))
       then Inl (UnknownVehicleModel model_id)
       else Inr (setVehicle (obj [(''body'', model_id)]) s))"

definition handleChangeColor :: "jsval \<Rightarrow> store \<Rightarrow> exn + store" where
  "handleChangeColor params s =
    (if nullish params then Inl TypeError
     else let color = own params ''color'';
              roughness = own params ''roughness'';
              updates = (if color \<noteq> JUndefined then [(''color'', color)] else []) @
                        (if roughness \<noteq> JUndefined then [(''roughness'', roughness)] else [])
          in Inr (setVehicle (obj updates) s))"

definition handleAdjustLift :: "jsval \<Rightarrow> store \<Rightarrow> exn + store" where
  "handleAdjustLift params s =
    (if nullish params then Inl TypeError
     else let lift_height = own params ''lift_height'' in
       if \<not> typeof_number lift_height then Inl InvalidLiftHeight
       else Inr (setVehicle (obj [(''lift'', lift_height)]) s))"

definition handleChangeRims :: "env \<Rightarrow> jsval \<Rightarrow> store \<Rightarrow> exn + store" where
  "handleChangeRims env params s =
    (if nullish params then Inl TypeError
     else let rim_id = own params ''rim_id'';
              color = own params ''color'';
              secondary_color = own params ''secondary_color'';
              updates =
                (if rim_id \<noteq> JUndefined \<and> found (catalog_lookup (rims env) (to_string env rim_id))
                 then [(''rim'', rim_id)] else []) @
                (if color \<noteq> JUndefined then [(''rim_color'', color)] else []) @
                (if secondary_color \<noteq> JUndefined
                 then [(''rim_color_secondary'', secondary_color)] else [])
          in Inr (setVehicle (obj updates) s))"

definition handleChangeTires :: "env \<Rightarrow> jsval \<Rightarrow> store \<Rightarrow> exn + store" where
  "handleChangeTires env params s =
    (if nullish params then Inl TypeError
     else let tire_id = own params ''tire_id'';
              diameter = own params ''diameter'';
              updates =
                (if tire_id \<noteq> JUndefined \<and> found (catalog_lookup (tires env) (to_string env tire_id))
                 then [(''tire'', tire_id)] else []) @
                (if diameter \<noteq> JUndefined then [(''tire_diameter'', diameter)] else [])
          in Inr (setVehicle (obj updates) s))"

definition handleChangeWheelSetup :: "jsval \<Rightarrow> store \<Rightarrow> exn + store" where
  "handleChangeWheelSetup params s =
    (if nullish params then Inl TypeError
     else let rim_diameter = own params ''rim_diameter'';
              rim_width = own params ''rim_width'';
              tire_diameter = own params ''tire_diameter'';
              updates =
                (if rim_diameter \<noteq> JUndefined then [(''rim_diameter'', rim_diameter)] else []) @
                (if rim_width \<noteq> JUndefined then [(''rim_width'', rim_width)] else []) @
                (if tire_diameter \<noteq> JUndefined then [(''tire_diameter'', tire_diameter)] else [])
          in Inr (setVehicle (obj updates) s))"

definition handleAddBumper :: "jsval \<Rightarrow> store \<Rightarrow> exn + store" where
  "handleAddBumper params s =
    (if nullish params then Inl TypeError
     else assign_addon ''bumper_f'' (own params ''bumper_type'') s)"

definition handleAddSliders :: "jsval \<Rightarrow> store \<Rightarrow> exn + store" where
  "handleAddSliders params s =
    (if nullish params then Inl TypeError
     else assign_addon ''sliders'' (own params ''slider_type'') s)"

definition handleAddRoofRack :: "jsval \<Rightarrow> store \<Rightarrow> exn + store" where
  "handleAddRoofRack params s =
    (if nullish params then Inl TypeError
     else assign_addon ''rack'' (own params ''rack_type'') s)"

definition handleToggleSpareTire :: "jsval \<Rightarrow> store \<Rightarrow> exn + store" where
  "handleToggleSpareTire params s =
    (if nullish params then Inl TypeError
     else Inr (setVehicle (obj [(''spare'', own params ''enabled'')]) s))"

text \<open>\<open>vehicleConfigs.vehicles[body]?.default_addons || {}\<close>; an inherited member has no
  property of that name.\<close>

definition default_addons_of :: "env \<Rightarrow> jsval \<Rightarrow> jsval" where
  "default_addons_of env body =
    js_or (case catalog_lookup (vehicles env) (to_string env body) of
             Entry vehicleConfig \<Rightarrow> default_addons vehicleConfig
           | Inherited k \<Rightarrow> JUndefined
           | Missing \<Rightarrow> JUndefined)
          (obj [])"

definition handleResetVehicle :: "env \<Rightarrow> store \<Rightarrow> exn + store" where
  "handleResetVehicle env s =
    (let currentBody = vehicle_field s ''body'';
         dflt = fmupd ''addons'' (default_addons_of env currentBody)
                  (fmupd ''body'' currentBody (defaults env))
     in Inr (setVehicle (JObj dflt) s))"

subsection \<open>Dispatch and batch\<close>

text \<open>
  \<open>applyVehicleUpdate\<close> destructures the command before it enters its \<open>try\<close> block, so a null
  or undefined command raises to the caller; an exception of a handler is caught and turned
  into the result \<open>false\<close>, and so is an unknown command type.
\<close>

definition applyVehicleUpdate :: "env \<Rightarrow> jsval \<Rightarrow> store \<Rightarrow> exn + (bool \<times> store)" where
  "applyVehicleUpdate env update s =
    (if nullish update then Inl TypeError
     else
       let command_type = own update ''command_type'';
           parameters = own update ''parameters'';
           handled =
             (if command_type = JStr ''change_model'' then Some (handleChangeModel env parameters s)
              else if command_type = JStr ''change_color'' then Some (handleChangeColor parameters s)
              else if command_type = JStr ''adjust_lift'' then Some (handleAdjustLift parameters s)
              else if command_type = JStr ''change_rims'' then Some (handleChangeRims env parameters s)
              else if command_type = JStr ''change_tires'' then Some (handleChangeTires env parameters s)
              else if command_type = JStr ''change_wheel_setup'' then
                Some (handleChangeWheelSetup parameters s)
              else if command_type = JStr ''add_bumper'' then Some (handleAddBumper parameters s)
              else if command_type = JStr ''add_sliders'' then Some (handleAddSliders parameters s)
              else if command_type = JStr ''add_roof_rack'' then Some (handleAddRoofRack parameters s)
              else if command_type = JStr ''toggle_spare_tire'' then
                Some (handleToggleSpareTire parameters s)
              else if command_type = JStr ''reset_vehicle'' then Some (handleResetVehicle env s)
              else None)
       in (case handled of
             None \<Rightarrow> Inr (False, s)
           | Some (Inl e) \<Rightarrow> Inr (False, s)
           | Some (Inr s') \<Rightarrow> Inr (True, s')))"

text \<open>The loop of \<open>applyVehicleUpdates\<close> with its two counters. An exception that escapes
  \<open>applyVehicleUpdate\<close> ends the loop; the store keeps what earlier commands wrote.\<close>

fun applyLoop ::
  "env \<Rightarrow> jsval list \<Rightarrow> nat \<Rightarrow> nat \<Rightarrow> store \<Rightarrow> (exn \<times> store) + ((nat \<times> nat) \<times> store)" where
  "applyLoop env [] successCount failedCount s = Inr ((successCount, failedCount), s)"
| "applyLoop env (update # rest) successCount failedCount s =
    (case applyVehicleUpdate env update s of
       Inl e \<Rightarrow> Inl (e, s)
     | Inr (success, s') \<Rightarrow>
         (if success then applyLoop env rest (Suc successCount) failedCount s'
          else applyLoop env rest successCount (Suc failedCount) s'))"

text \<open>The result pair is \<open>(success, failed)\<close>.\<close>

definition applyVehicleUpdates ::
  "env \<Rightarrow> jsval \<Rightarrow> store \<Rightarrow> (exn \<times> store) + ((nat \<times> nat) \<times> store)" where
  "applyVehicleUpdates env updates s =
    (case updates of
       JArr us \<Rightarrow> (if us = [] then Inr ((0, 0), s) else applyLoop env us 0 0 s)
     | _ \<Rightarrow> Inr ((0, 0), s))"

definition syncVehicleState :: "jsval \<Rightarrow> store \<Rightarrow> bool \<times> store" where
  "syncVehicleState state s =
    (if \<not> truthy state \<or> \<not> typeof_object state then (False, s)
     else (True, setVehicle state s))"

text \<open>\<open>v.length > 0\<close> for a truthy \<open>v\<close>.\<close>

definition length_positive :: "env \<Rightarrow> jsval \<Rightarrow> bool" where
  "length_positive env v = (case v of
      JArr xs \<Rightarrow> xs \<noteq> []
    | JStr str \<Rightarrow> str \<noteq> []
    | JObj m \<Rightarrow> num_lt (Fin 0) (toNumberJS env (own v ''length''))
    | _ \<Rightarrow> False)"

definition processAgentResponse ::
  "env \<Rightarrow> jsval \<Rightarrow> store \<Rightarrow> (exn \<times> store) + (bool \<times> store)" where
  "processAgentResponse env structuredResponse s =
    (if \<not> truthy structuredResponse then Inr (False, s)
     else
       let vehicle_updates = own structuredResponse ''vehicle_updates'';
           final_vehicle_state = own structuredResponse ''final_vehicle_state'';
           error = own structuredResponse ''error''
       in if truthy error then Inr (False, s)
          else if truthy vehicle_updates \<and> length_positive env vehicle_updates then
            (case applyVehicleUpdates env vehicle_updates s of
               Inl e \<Rightarrow> Inl e
             | Inr ((succeeded, failed), s1) \<Rightarrow>
                 (if 0 < failed \<and> truthy final_vehicle_state
                  then Inr (failed = 0, snd (syncVehicleState final_vehicle_state s1))
                  else Inr (failed = 0, s1)))
          else if truthy final_vehicle_state then Inr (syncVehicleState final_vehicle_state s)
          else Inr (False, s))"

section \<open>Scene handlers (src/lib/scene-handlers.js)\<close>

subsection \<open>Validation primitives\<close>

text \<open>The test \<open>/^#[0-9A-F]{6}$/i.test(color)\<close> on the string form of its argument.\<close>

definition isHexColor :: "string \<Rightarrow> bool" where
  "isHexColor str = (case str of
      [] \<Rightarrow> False
    | c # cs \<Rightarrow> c = CHR ''#'' \<and> length cs = 6 \<and>
               (\<forall>d \<in> set cs. d \<in> set ''0123456789ABCDEFabcdef''))"

text \<open>\<open>isNaN(value) || value < MIN || value > MAX\<close>.\<close>

definition out_of_range :: "jsnum \<Rightarrow> real \<Rightarrow> real \<Rightarrow> bool" where
  "out_of_range v lo hi = (v = NaN \<or> num_lt v (Fin lo) \<or> num_lt (Fin hi) v)"

definition LIFT_MIN :: real where "LIFT_MIN = 0"
definition LIFT_MAX :: real where "LIFT_MAX = 6"
definition RIM_DIAMETER_MIN :: real where "RIM_DIAMETER_MIN = 15"
definition RIM_DIAMETER_MAX :: real where "RIM_DIAMETER_MAX = 20"
definition RIM_WIDTH_MIN :: real where "RIM_WIDTH_MIN = 7"
definition RIM_WIDTH_MAX :: real where "RIM_WIDTH_MAX = 12"
definition TIRE_DIAMETER_MIN :: real where "TIRE_DIAMETER_MIN = 28"
definition TIRE_DIAMETER_MAX :: real where "TIRE_DIAMETER_MAX = 40"
definition ROUGHNESS_MIN :: real where "ROUGHNESS_MIN = 0"
definition ROUGHNESS_MAX :: real where "ROUGHNESS_MAX = 1"

text \<open>
  The result envelope \<open>{success, data?, error?}\<close>. A failure names the message and carries
  the offending value; the \<open>data\<close> echo of a success and the lists of alternatives that some
  failures add are not modelled (no caller in the sources reads them). \<open>Caught e\<close> is the
  envelope that a \<open>catch\<close> block builds from an exception.
\<close>

datatype failure =
    InvalidVehicleModel jsval
  | InvalidColorFormat jsval
  | InvalidRoughness jsval
  | NoValidAppearanceParameters
  | InvalidLift jsval
  | InvalidRim jsval
  | InvalidRimColor jsval
  | InvalidRimSecondaryColor jsval
  | InvalidRimDiameter jsval
  | InvalidRimWidth jsval
  | InvalidTire jsval
  | InvalidTireDiameter jsval
  | NoValidWheelParameters
  | UnsupportedAddonType jsval
  | InvalidAddonValue jsval jsval
  | InvalidConfigurationObject
  | UnknownOperation jsval
  | Caught exn

datatype result = Success | Failure "failure list"

fun succeeded :: "result \<Rightarrow> bool" where
  "succeeded Success = True"
| "succeeded (Failure es) = False"

subsection \<open>Mutation handlers\<close>

definition setVehicleBody :: "env \<Rightarrow> jsval \<Rightarrow> store \<Rightarrow> result \<times> store" where
  "setVehicleBody env modelId s =
    (if \<not> found (catalog_lookup (vehicles env) (to_string env modelId))
     then (Failure [InvalidVehicleModel modelId], s)
     else (Success, setVehicle (obj [(''body'', modelId)]) s))"

definition setVehicleColor :: "env \<Rightarrow> jsval \<Rightarrow> store \<Rightarrow> result \<times> store" where
  "setVehicleColor env color s =
    (if \<not> isHexColor (to_string env color) then (Failure [InvalidColorFormat color], s)
     else (Success, setVehicle (obj [(''color'', color)]) s))"





definition setVehicleLift :: "env \<Rightarrow> jsval \<Rightarrow> store \<Rightarrow> result \<times> store" where
  "setVehicleLift env liftInches s =
    (let v = parseFloat env liftInches in
     if out_of_range v LIFT_MIN LIFT_MAX then (Failure [InvalidLift liftInches], s)
     else (Success, setVehicle (obj [(''lift'', JNum v)]) s))"

definition setRim :: "env \<Rightarrow> jsval \<Rightarrow> store \<Rightarrow> result \<times> store" where
  "setRim env rimId s =
    (if \<not> found (catalog_lookup (rims env) (to_string env rimId))
     then (Failure [InvalidRim rimId], s)
     else (Success, setVehicle (obj [(''rim'', rimId)]) s))"

text \<open>\<open>!/^#[0-9A-F]{6}$/i.test(color) && color !== 'silver'\<close> rejects a rim colour.\<close>

definition rim_color_valid :: "env \<Rightarrow> jsval \<Rightarrow> bool" where
  "rim_color_valid env color = (isHexColor (to_string env color) \<or> color = JStr ''silver'')"





definition setTire :: "env \<Rightarrow> jsval \<Rightarrow> store \<Rightarrow> result \<times> store" where
  "setTire env tireId s =
    (if \<not> found (catalog_lookup (tires env) (to_string env tireId))
     then (Failure [InvalidTire tireId], s)
     else (Success, setVehicle (obj [(''tire'', tireId)]) s))"


text \<open>
  \<open>setWheelConfiguration\<close> walks over its eight fields in a fixed order and fills two
  accumulators, \<open>errors\<close> and \<open>updates\<close>. For each of the first seven fields a provided value
  lands in exactly one of them; a provided \<open>wheel_offset\<close> that does not parse as a number
  lands in neither.
\<close>

definition wheel_errors :: "env \<Rightarrow> jsval \<Rightarrow> failure list" where
  "wheel_errors env params =
    (let rim = own params ''rim'';
         rim_diameter = own params ''rim_diameter'';
         rim_width = own params ''rim_width'';
         rim_color = own params ''rim_color'';
         rim_color_secondary = own params ''rim_color_secondary'';
         tire = own params ''tire'';
         tire_diameter = own params ''tire_diameter''
     in (if rim \<noteq> JUndefined \<and> \<not> found (catalog_lookup (rims env) (to_string env rim))
         then [InvalidRim rim] else []) @
        (if rim_diameter \<noteq> JUndefined \<and>
            out_of_range (parseInt env rim_diameter) RIM_DIAMETER_MIN RIM_DIAMETER_MAX
         then [InvalidRimDiameter rim_diameter] else []) @
        (if rim_width \<noteq> JUndefined \<and>
            out_of_range (parseFloat env rim_width) RIM_WIDTH_MIN RIM_WIDTH_MAX
         then [InvalidRimWidth rim_width] else []) @
        (if rim_color \<noteq> JUndefined \<and> \<not> rim_color_valid env rim_color
         then [InvalidRimColor rim_color] else []) @
        (if rim_color_secondary \<noteq> JUndefined \<and> \<not> rim_color_valid env rim_color_secondary
         then [InvalidRimSecondaryColor rim_color_secondary] else []) @
        (if tire \<noteq> JUndefined \<and> \<not> found (catalog_lookup (tires env) (to_string env tire))
         then [InvalidTire tire] else []) @
        (if tire_diameter \<noteq> JUndefined \<and>
            out_of_range (parseInt env tire_diameter) TIRE_DIAMETER_MIN TIRE_DIAMETER_MAX
         then [InvalidTireDiameter tire_diameter] else []))"

definition wheel_updates :: "env \<Rightarrow> jsval \<Rightarrow> (string \<times> jsval) list" where
  "wheel_updates env params =
    (let rim = own params ''rim'';
         rim_diameter = own params ''rim_diameter'';
         rim_width = own params ''rim_width'';
         rim_color = own params ''rim_color'';
         rim_color_secondary = own params ''rim_color_secondary'';
         tire = own params ''tire'';
         tire_diameter = own params ''tire_diameter'';
         wheel_offset = own params ''wheel_offset''
     in (if rim \<noteq> JUndefined \<and> found (catalog_lookup (rims env) (to_string env rim))
         then [(''rim'', rim)] else []) @
        (if rim_diameter \<noteq> JUndefined \<and>
            \<not> out_of_range (parseInt env rim_diameter) RIM_DIAMETER_MIN RIM_DIAMETER_MAX
         then [(''rim_diameter'', JNum (parseInt env rim_diameter))] else []) @
        (if rim_width \<noteq> JUndefined \<and>
            \<not> out_of_range (parseFloat env rim_width) RIM_WIDTH_MIN RIM_WIDTH_MAX
         then [(''rim_width'', JNum (parseFloat env rim_width))] else []) @
        (if rim_color \<noteq> JUndefined \<and> rim_color_valid env rim_color
         then [(''rim_color'', rim_color)] else []) @
        (if rim_color_secondary \<noteq> JUndefined \<and> rim_color_valid env rim_color_secondary
         then [(''rim_color_secondary'', rim_color_secondary)] else []) @
        (if tire \<noteq> JUndefined \<and> found (catalog_lookup (tires env) (to_string env tire))
         then [(''tire'', tire)] else []) @
        (if tire_diameter \<noteq> JUndefined \<and>
            \<not> out_of_range (parseInt env tire_diameter) TIRE_DIAMETER_MIN TIRE_DIAMETER_MAX
         then [(''tire_diameter'', JNum (parseInt env tire_diameter))] else []) @
        (if wheel_offset \<noteq> JUndefined \<and> parseFloat env wheel_offset \<noteq> NaN
         then [(''wheel_offset'', JNum (parseFloat env wheel_offset))] else []))"

definition setWheelConfiguration :: "env \<Rightarrow> jsval \<Rightarrow> store \<Rightarrow> exn + (result \<times> store)" where
  "setWheelConfiguration env params s =
    (if nullish params then Inl TypeError
     else
       let errors = wheel_errors env params;
           updates = wheel_updates env params
       in if errors \<noteq> [] then Inr (Failure errors, s)
          else if updates = [] then Inr (Failure [NoValidWheelParameters], s)
          else Inr (Success, setVehicle (obj updates) s))"

text \<open>
  \<open>setVehicleAddon\<close> reads the catalog entry of the current body. When the lookup yields
  undefined, the read of its \<open>addons\<close> raises inside the \<open>try\<close> block; an inherited member
  has no \<open>addons\<close>. The slot is looked up in \<open>addons\<close> with a computed key as well; an
  inherited member found there has no \<open>options\<close>, and the lookup of the value in it raises.
\<close>

definition setVehicleAddon :: "env \<Rightarrow> jsval \<Rightarrow> jsval \<Rightarrow> store \<Rightarrow> result \<times> store" where
  "setVehicleAddon env addonType addonValue s =
    (let bodyId = vehicle_field s ''body'' in
     case catalog_lookup (vehicles env) (to_string env bodyId) of
       Missing \<Rightarrow> (Failure [Caught TypeError], s)
     | Inherited b \<Rightarrow> (Failure [UnsupportedAddonType addonType], s)
     | Entry vehicleConfig \<Rightarrow>
         (case addons vehicleConfig of
            None \<Rightarrow> (Failure [UnsupportedAddonType addonType], s)
          | Some slots \<Rightarrow>
              (case catalog_lookup slots (to_string env addonType) of
                 Missing \<Rightarrow> (Failure [UnsupportedAddonType addonType], s)
               | Inherited b \<Rightarrow> (Failure [Caught TypeError], s)
               | Entry addonConfig \<Rightarrow>
                   if \<not> found (catalog_lookup (options addonConfig) (to_string env addonValue))
                   then (Failure [InvalidAddonValue addonValue addonType], s)
                   else (case assign_addon (to_string env addonType) addonValue s of
                           Inl e \<Rightarrow> (Failure [Caught e], s)
                         | Inr s' \<Rightarrow> (Success, s')))))"


definition toggleSpareTire :: "jsval \<Rightarrow> store \<Rightarrow> result \<times> store" where
  "toggleSpareTire enabled s =
    (Success, setVehicle (obj [(''spare'', JBool (truthy enabled))]) s)"



definition setVehicleConfiguration :: "env \<Rightarrow> jsval \<Rightarrow> store \<Rightarrow> result \<times> store" where
  "setVehicleConfiguration env config s =
    (if \<not> truthy config \<or> \<not> typeof_object config then (Failure [InvalidConfigurationObject], s)
     else if truthy (own config ''body'') \<and>
             \<not> found (catalog_lookup (vehicles env) (to_string env (own config ''body'')))
     then (Failure [InvalidVehicleModel (own config ''body'')], s)
     else (Success, setVehicle config s))"

text \<open>The \<open>data\<close> of \<open>exportVehicleConfiguration\<close> is the live configuration object.\<close>

definition exportVehicleConfiguration :: "store \<Rightarrow> jsval" where
  "exportVehicleConfiguration s = JObj (currentVehicle s)"

definition importVehicleConfiguration :: "env \<Rightarrow> jsval \<Rightarrow> store \<Rightarrow> result \<times> store" where
  "importVehicleConfiguration env config s = setVehicleConfiguration env config s"

subsection \<open>Saved vehicles\<close>

text \<open>The envelope of \<open>loadSavedVehicle\<close>: success with its data, or "not found".\<close>

datatype load_result = Loaded jsval | NotFound jsval

text \<open>
  Modelled from the spec: \<open>setSavedVehicles\<close> of the state store (not among the sources),
  "\<open>set(updaterFn)\<close>": the collection becomes what the updater returns.
\<close>

definition setSavedVehicles ::
  "((string, jsval) fmap \<Rightarrow> (string, jsval) fmap) \<Rightarrow> store \<Rightarrow> store" where
  "setSavedVehicles updater s = s\<lparr>savedVehicles := updater (savedVehicles s)\<rparr>"

text \<open>The lookup \<open>savedVehicles[vehicleId]\<close> of \<open>loadSavedVehicle\<close> uses a computed key; its
  updater is \<open>(vehicles) => ({ ...vehicles, current: vehicleId })\<close>.\<close>

definition loadSavedVehicle :: "env \<Rightarrow> jsval \<Rightarrow> store \<Rightarrow> load_result \<times> store" where
  "loadSavedVehicle env vehicleId s =
    (let saved = savedVehicles s;
         found = lookup_key saved (to_string env vehicleId)
     in if \<not> truthy found then (NotFound vehicleId, s)
        else (Loaded found,
              setSavedVehicles (\<lambda>vehicles. fmupd ''current'' vehicleId vehicles) s))"

subsection \<open>Batch operations\<close>

text \<open>One item of \<open>applyBatchUpdates\<close>: the \<open>switch\<close> over the operation name. Reading
  \<open>params.type\<close> of a null or undefined \<open>params\<close> raises inside the \<open>try\<close> block and becomes a
  failure of the item.\<close>

definition batchItem :: "env \<Rightarrow> jsval \<Rightarrow> jsval \<Rightarrow> store \<Rightarrow> result \<times> store" where
  "batchItem env operation params s =
    (if operation = JStr ''setVehicleBody'' then setVehicleBody env params s
     else if operation = JStr ''setVehicleColor'' then setVehicleColor env params s
     else if operation = JStr ''setVehicleLift'' then setVehicleLift env params s
     else if operation = JStr ''setRim'' then setRim env params s
     else if operation = JStr ''setTire'' then setTire env params s
     else if operation = JStr ''setVehicleAddon'' then
       (if nullish params then (Failure [Caught TypeError], s)
        else setVehicleAddon env (own params ''type'') (own params ''value'') s)
     else if operation = JStr ''toggleSpareTire'' then toggleSpareTire params s
     else (Failure [UnknownOperation operation], s))"

record batch =
  success :: bool
  total :: nat
  successCount :: nat
  failureCount :: nat
  results :: "(jsval \<times> result) list"

text \<open>
  The loop of \<open>applyBatchUpdates\<close>. A null or undefined item raises when it is destructured;
  the \<open>catch\<close> block then reads \<open>update.operation\<close> and raises again, to the caller.
\<close>

fun batchLoop ::
  "env \<Rightarrow> jsval list \<Rightarrow> (jsval \<times> result) list \<Rightarrow> nat \<Rightarrow> nat \<Rightarrow> store \<Rightarrow>
   (exn \<times> store) + (((jsval \<times> result) list \<times> nat \<times> nat) \<times> store)" where
  "batchLoop env [] res sc fc s = Inr ((res, sc, fc), s)"
| "batchLoop env (update # rest) res sc fc s =
    (if nullish update then Inl (TypeError, s)
     else
       let operation = own update ''operation'';
           params = own update ''params'';
           (r, s') = batchItem env operation params s
       in if succeeded r then batchLoop env rest (res @ [(operation, r)]) (Suc sc) fc s'
          else batchLoop env rest (res @ [(operation, r)]) sc (Suc fc) s')"

datatype batch_result = UpdatesMustBeArray | Batch batch

definition applyBatchUpdates ::
  "env \<Rightarrow> jsval \<Rightarrow> store \<Rightarrow> (exn \<times> store) + (batch_result \<times> store)" where
  "applyBatchUpdates env updates s =
    (case updates of
       JArr us \<Rightarrow>
         (case batchLoop env us [] 0 0 s of
            Inl e \<Rightarrow> Inl e
          | Inr ((res, sc, fc), s') \<Rightarrow>
              Inr (Batch \<lparr>success = (fc = 0), total = length us, successCount = sc,
                           failureCount = fc, results = res\<rparr>, s'))
     | _ \<Rightarrow> Inr (UpdatesMustBeArray, s))"

section \<open>Decal placement (the click handler of the decal overlay)\<close>

text \<open>
  A decal record as the store keeps it: identity, image, and placement. The components of
  the vectors are JavaScript numbers.
\<close>

record vec3 =
  vec_x :: jsnum
  vec_y :: jsnum
  vec_z :: jsnum

record decal =
  decal_id :: string
  imageUrl :: string
  fileName :: string
  position :: vec3
  rotation :: vec3
  scale :: vec3
  opacity :: jsnum
  normal :: vec3

record decal_state =
  decals :: "decal list"
  placementMode :: bool
  selectedDecalId :: "string option"

text \<open>
  What the renderer contributes to one click: the mouse button, whether the event target
  lies in a canvas, and the first intersection of the ray with the vehicle mesh, if any:
  the hit point and, when the intersection has face data, the normal of the face. The
  ray cast and the two computations of the 3D library on the normal (transforming it to
  world space and normalising it; turning the quaternion that rotates the axis (0, 0, 1)
  onto it into Euler angles) are floating point code of the library and are parameters.
\<close>

record click =
  button :: int
  on_canvas :: bool
  intersection :: "(vec3 \<times> vec3 option) option"

record three =
  worldNormal :: "vec3 \<Rightarrow> vec3"
  eulerFromNormal :: "vec3 \<Rightarrow> vec3"

text \<open>Truthiness of a decal id (\<open>null\<close> is \<open>None\<close>), and \<open>z || 0\<close> on a number.\<close>

definition id_truthy :: "string option \<Rightarrow> bool" where
  "id_truthy i = (case i of None \<Rightarrow> False | Some str \<Rightarrow> str \<noteq> [])"

definition num_or_zero :: "jsnum \<Rightarrow> jsnum" where
  "num_or_zero n = (if n = NaN \<or> n = Fin 0 then Fin 0 else n)"

text \<open>
  Modelled from the spec: \<open>updateDecal\<close> of the state store (not among the sources); on
  click-placement the decal is "mutated ... (position/rotation/normal rewritten ...)", the
  other fields stay. \<open>setPlacementMode\<close> and \<open>setSelectedDecal\<close> set the flag and the
  selection.
\<close>

definition updateDecal :: "string \<Rightarrow> vec3 \<Rightarrow> vec3 \<Rightarrow> vec3 \<Rightarrow> decal_state \<Rightarrow> decal_state" where
  "updateDecal i p r n st =
    st\<lparr>decals := map (\<lambda>d. if decal_id d = i then d\<lparr>position := p, rotation := r, normal := n\<rparr>
                           else d) (decals st)\<rparr>"

definition handleClick :: "three \<Rightarrow> click \<Rightarrow> decal_state \<Rightarrow> decal_state" where
  "handleClick lib event st =
    (if button event \<noteq> 0 then st
     else if \<not> placementMode st \<and> \<not> id_truthy (selectedDecalId st) then st
     else if \<not> on_canvas event then st
     else (case intersection event of
             None \<Rightarrow> st
           | Some (point, None) \<Rightarrow> st
           | Some (point, Some face_normal) \<Rightarrow>
               let nrm = worldNormal lib face_normal;
                   orientation = eulerFromNormal lib nrm;
                   placing = (placementMode st \<and> decals st \<noteq> []);
                   targetDecalId = (if placing then Some (decal_id (last (decals st)))
                                    else selectedDecalId st);
                   st1 = (if placing
                          then st\<lparr>placementMode := False, selectedDecalId := targetDecalId\<rparr>
                          else st)
               in if id_truthy targetDecalId then
                    let currentDecal = find (\<lambda>d. Some (decal_id d) = targetDecalId) (decals st);
                        zRotation = (case currentDecal of
                                       None \<Rightarrow> Fin 0
                                     | Some d \<Rightarrow> num_or_zero (vec_z (rotation d)))
                    in updateDecal (the targetDecalId) point
                         \<lparr>vec_x = vec_x orientation, vec_y = vec_y orientation,
                          vec_z = zRotation\<rparr>
                         nrm st1
                  else st1))"

section \<open>An example catalog\<close>

text \<open>
  A small catalog for the concrete evaluations below, with identifiers that the test suite
  and the mock agent responses of the repository use. Its conversions stand for those of
  the language on the values of the examples: \<open>parseFloat\<close> and \<open>parseInt\<close> get numbers of
  ordinary size (returned as they are, and truncated) and the string \<open>"abc"\<close> (NaN);
  \<open>ToNumber\<close> is not reached. \<open>ToString\<close> prints a number in decimal notation without an
  exponent, as the language does for numbers of ordinary size with a short decimal
  expansion, an array as its elements separated by commas, and an inherited member as the
  source text of a built-in function.
\<close>

definition example_parseFloat :: "jsval \<Rightarrow> jsnum" where
  "example_parseFloat v = (case v of JNum n \<Rightarrow> n | _ \<Rightarrow> NaN)"

definition example_parseInt :: "jsval \<Rightarrow> jsnum" where
  "example_parseInt v = (case v of
      JNum (Fin r) \<Rightarrow> Fin (if r < 0 then of_int \<lceil>r\<rceil> else of_int \<lfloor>r\<rfloor>)
    | _ \<Rightarrow> NaN)"

fun fraction_digits :: "nat \<Rightarrow> real \<Rightarrow> string" where
  "fraction_digits 0 r = []"
| "fraction_digits (Suc n) r =
     (if r = 0 then []
      else ''0123456789'' ! nat \<lfloor>r * 10\<rfloor> # fraction_digits n (r * 10 - of_int \<lfloor>r * 10\<rfloor>))"

definition real_to_string :: "real \<Rightarrow> string" where
  "real_to_string r =
     (if r < 0 then ''-'' else []) @ index_key (nat \<lfloor>\<bar>r\<bar>\<rfloor>) @
     (if \<bar>r\<bar> = of_int \<lfloor>\<bar>r\<bar>\<rfloor> then []
      else ''.'' @ fraction_digits 17 (\<bar>r\<bar> - of_int \<lfloor>\<bar>r\<bar>\<rfloor>))"

fun join_commas :: "string list \<Rightarrow> string" where
  "join_commas [] = []"
| "join_commas [str] = str"
| "join_commas (str # rest) = str @ '','' @ join_commas rest"

fun example_toString :: "jsval \<Rightarrow> string" where
  "example_toString JUndefined = ''undefined''"
| "example_toString JNull = ''null''"
| "example_toString (JBool b) = (if b then ''true'' else ''false'')"
| "example_toString (JNum NaN) = ''NaN''"
| "example_toString (JNum NegInf) = ''-Infinity''"
| "example_toString (JNum (Fin r)) = real_to_string r"
| "example_toString (JNum PosInf) = ''Infinity''"
| "example_toString (JStr str) = str"
| "example_toString (JArr xs) =
     join_commas (map (\<lambda>x. if nullish x then [] else example_toString x) xs)"
| "example_toString (JObj m) = ''[object Object]''"
| "example_toString (JBuiltin k) =
     (if k = ''__proto__'' then ''[object Object]''
      else ''function '' @ (if k = ''constructor'' then ''Object'' else k) @
           ''() { [native code] }'')"

definition example_toNumber :: "jsval \<Rightarrow> jsnum" where
  "example_toNumber v = (case v of
      JNum n \<Rightarrow> n
    | JNull \<Rightarrow> Fin 0
    | JBool b \<Rightarrow> (if b then Fin 1 else Fin 0)
    | _ \<Rightarrow> NaN)"

definition example_vehicles :: "(string, vehicle_entry) fmap" where
  "example_vehicles = fmap_of_list
    [(''toyota_4runner_5g'', \<lparr>default_addons = obj [], addons = Some fmempty\<rparr>),
     (''jeep_jku'', \<lparr>default_addons = obj [], addons = Some fmempty\<rparr>),
     (''toyota_4runner_3g'',
      \<lparr>default_addons = obj [(''bumper_f'', JStr ''stock'')],
       addons = Some (fmap_of_list
         [(''bumper_f'', \<lparr>options = fmap_of_list [(''stock'', ()), (''shrockworks'', ())]\<rparr>),
          (''sliders'', \<lparr>options = fmap_of_list [(''steel'', ())]\<rparr>),
          (''rack'', \<lparr>options = fmap_of_list [(''whitson'', ())]\<rparr>)])\<rparr>)]"

definition example_defaults :: "(string, jsval) fmap" where
  "example_defaults = fmap_of_list
    [(''body'', JStr ''toyota_4runner_5g''), (''lift'', JNum (Fin 0)),
     (''color'', JStr ''#B91818''), (''roughness'', JNum (Fin 0)), (''addons'', obj []),
     (''wheel_offset'', JNum (Fin 0)), (''rim'', JStr ''xd_grenade''),
     (''rim_color'', JStr ''silver''), (''rim_color_secondary'', JStr ''silver''),
     (''rim_diameter'', JNum (Fin 17)), (''rim_width'', JNum (Fin 10)),
     (''tire'', JStr ''bfg_km3''), (''tire_diameter'', JNum (Fin 32)),
     (''spare'', JBool True)]"

definition example_env :: env where
  "example_env =
    \<lparr>parseFloat = example_parseFloat, parseInt = example_parseInt,
     toStringJS = example_toString, toNumberJS = example_toNumber,
     vehicles = example_vehicles,
     rims = fmap_of_list [(''xd_grenade'', ()), (''xd_machete'', ())],
     tires = fmap_of_list [(''bfg_km3'', ()), (''bfg_at'', ())],
     defaults = example_defaults\<rparr>"

definition example_store :: store where
  "example_store = \<lparr>currentVehicle = example_defaults, savedVehicles = fmempty\<rparr>"

section \<open>Notions used by the properties\<close>

text \<open>The fields of a VehicleConfiguration (section 3 of the specification); a snapshot is
  full when it has all of them.\<close>

definition vehicle_fields :: "string list" where
  "vehicle_fields =
    [''body'', ''lift'', ''color'', ''roughness'', ''rim'', ''rim_color'',
     ''rim_color_secondary'', ''rim_diameter'', ''rim_width'', ''tire'', ''tire_diameter'',
     ''wheel_offset'', ''addons'', ''spare'']"

definition full_configuration :: "(string, jsval) fmap \<Rightarrow> bool" where
  "full_configuration m = (\<forall>k \<in> set vehicle_fields. fmlookup m k \<noteq> None)"

text \<open>Follows the specification's words, not the code: the null-coalescing operator
  \<open>a ?? b\<close>, which the specification uses to describe the fallback chains.\<close>

definition coalesce :: "jsval \<Rightarrow> jsval \<Rightarrow> jsval" where
  "coalesce a b = (if nullish a then b else a)"

text \<open>Follows the specification's words, not the code: the validation primitive
  \<open>isKnownId(id, catalogMap)\<close>, the membership test against a map of the catalog. The code
  has no such function; it tests the truthiness of \<open>catalogMap[id]\<close>.\<close>

definition isKnownId :: "string \<Rightarrow> (string, 'a) fmap \<Rightarrow> bool" where
  "isKnownId k m = (fmlookup m k \<noteq> None)"


definition inherited_name :: "env \<Rightarrow> jsval \<Rightarrow> bool" where
  "inherited_name env v = (to_string env v \<in> set Object_prototype_keys)"



text \<open>
  The same rules for a value as a handler of the scene-handlers module receives it, before
  the numeric fields are parsed: \<open>input_rejected env k v\<close> says that \<open>v\<close>, offered for the
  field \<open>k\<close>, does not pass.
\<close>

definition input_rejected :: "env \<Rightarrow> string \<Rightarrow> jsval \<Rightarrow> bool" where
  "input_rejected env k v =
    (if k = ''body'' then \<not> isKnownId (to_string env v) (vehicles env)
     else if k = ''color'' then \<not> isHexColor (to_string env v)
     else if k = ''roughness'' then out_of_range (parseFloat env v) ROUGHNESS_MIN ROUGHNESS_MAX
     else if k = ''lift'' then out_of_range (parseFloat env v) LIFT_MIN LIFT_MAX
     else if k = ''rim'' then \<not> isKnownId (to_string env v) (rims env)
     else if k = ''rim_color'' then \<not> rim_color_valid env v
     else if k = ''rim_color_secondary'' then \<not> rim_color_valid env v
     else if k = ''rim_diameter'' then
       out_of_range (parseInt env v) RIM_DIAMETER_MIN RIM_DIAMETER_MAX
     else if k = ''rim_width'' then out_of_range (parseFloat env v) RIM_WIDTH_MIN RIM_WIDTH_MAX
     else if k = ''tire'' then \<not> isKnownId (to_string env v) (tires env)
     else if k = ''tire_diameter'' then
       out_of_range (parseInt env v) TIRE_DIAMETER_MIN TIRE_DIAMETER_MAX
     else if k = ''wheel_offset'' then parseFloat env v = NaN
     else False)"









text \<open>
  The items of a direct batch run one after the other, each on the store its predecessor
  left, whatever the outcome of the predecessor: the reference against which the loop of
  \<open>applyBatchUpdates\<close> is compared.
\<close>

fun run_items :: "env \<Rightarrow> jsval list \<Rightarrow> store \<Rightarrow> (jsval \<times> result) list \<times> store" where
  "run_items env [] s = ([], s)"
| "run_items env (update # rest) s =
    (let (r, s1) = batchItem env (own update ''operation'') (own update ''params'') s;
         (rs, s2) = run_items env rest s1
     in ((own update ''operation'', r) # rs, s2))"

definition batch_operations :: "string list" where
  "batch_operations =
    [''setVehicleBody'', ''setVehicleColor'', ''setVehicleLift'', ''setRim'', ''setTire'',
     ''setVehicleAddon'', ''toggleSpareTire'']"

section \<open>Example inputs\<close>

text \<open>The complete state of the repository's mock agent responses, an agent command of an
  unknown type, and a colour change.\<close>

definition example_final_state :: "(string, jsval) fmap" where
  "example_final_state = fmap_of_list
    [(''body'', JStr ''toyota_4runner_5g''), (''lift'', JNum (Fin 3)),
     (''color'', JStr ''#000000''), (''roughness'', JNum (Fin 0.8)), (''addons'', obj []),
     (''wheel_offset'', JNum (Fin 0)), (''rim'', JStr ''xd_grenade''),
     (''rim_color'', JStr ''black''), (''rim_color_secondary'', JStr ''black''),
     (''rim_diameter'', JNum (Fin 17)), (''rim_width'', JNum (Fin 10)),
     (''tire'', JStr ''bfg_km3''), (''tire_diameter'', JNum (Fin 35)),
     (''spare'', JBool True)]"

definition unknown_command :: jsval where
  "unknown_command =
    obj [(''command_type'', JStr ''paint_flames''), (''parameters'', obj []),
         (''description'', JStr ''Painted flames''), (''client_id'', JStr ''test-user'')]"

definition red_command :: jsval where
  "red_command =
    obj [(''command_type'', JStr ''change_color''),
         (''parameters'', obj [(''color'', JStr ''#FF0000'')]),
         (''description'', JStr ''Changed vehicle color to red''),
         (''client_id'', JStr ''test-user'')]"

definition example_response :: jsval where
  "example_response =
    obj [(''vehicle_updates'', JArr [red_command, unknown_command]),
         (''final_vehicle_state'', JObj example_final_state),
         (''error'', JNull)]"

text \<open>A configuration object with a key that is no field of a VehicleConfiguration, and the
  store after it has been merged into the default configuration.\<close>

definition nickname_config :: jsval where
  "nickname_config = obj [(''nickname'', JStr ''Trail rig'')]"

definition nickname_store :: store where
  "nickname_store = setVehicle nickname_config example_store"


definition bad_offset_params :: jsval where
  "bad_offset_params = obj [(''wheel_offset'', JStr ''abc''), (''tire_diameter'', JNum (Fin 33))]"


definition example_updates :: "jsval list" where
  "example_updates =
    [obj [(''operation'', JStr ''setVehicleBody''), (''params'', JStr ''jeep_jku'')],
     obj [(''operation'', JStr ''setVehicleColor''), (''params'', JStr ''invalid_color'')],
     obj [(''operation'', JStr ''setVehicleLift''), (''params'', JNum (Fin 3))]]"


definition null_batch :: "jsval list" where
  "null_batch =
    [obj [(''operation'', JStr ''setVehicleLift''), (''params'', JNum (Fin 3))],
     JNull,
     obj [(''operation'', JStr ''setVehicleColor''), (''params'', JStr ''#FFD700'')]]"

text \<open>A saved-vehicles collection with one saved vehicle and the pointer to it.\<close>

definition example_saved :: "(string, jsval) fmap" where
  "example_saved = fmap_of_list
    [(''vehicle_1700000000000'',
      obj [(''name'', JStr ''Test Vehicle''), (''config'', JObj example_defaults),
           (''timestamp'', JNum (Fin 1700000000000))]),
     (''current'', JStr ''vehicle_1700000000000'')]"

text \<open>A complete state whose body is not in the catalog, and the agent response that carries
  it.\<close>

definition ghost_state :: jsval where
  "ghost_state = JObj (fmupd ''body'' (JStr ''ghost'') example_final_state)"

definition ghost_response :: jsval where
  "ghost_response =
    obj [(''vehicle_updates'', JArr []), (''final_vehicle_state'', ghost_state),
         (''error'', JNull)]"

text \<open>
  A decal with a spin of 45 degrees, selected for repositioning, and a click on a face of the
  vehicle whose normal is the x axis. The example library has the mesh at the identity
  transform and tabulates the Euler angles for the two normals (0, 0, 1) and (1, 0, 0):
  no rotation, and a quarter turn about the y axis.
\<close>

definition example_decal :: decal where
  "example_decal =
    \<lparr>decal_id = ''decal_1700000000000'', imageUrl = ''data:image/png;base64,AAAA'',
     fileName = ''logo.png'',
     position = \<lparr>vec_x = Fin 0, vec_y = Fin 0.5, vec_z = Fin 0.5\<rparr>,
     rotation = \<lparr>vec_x = Fin 0, vec_y = Fin 0, vec_z = Fin (pi / 4)\<rparr>,
     scale = \<lparr>vec_x = Fin 0.3, vec_y = Fin 0.3, vec_z = Fin 0.3\<rparr>,
     opacity = Fin 1,
     normal = \<lparr>vec_x = Fin 0, vec_y = Fin 0, vec_z = Fin 1\<rparr>\<rparr>"

definition example_decal_state :: decal_state where
  "example_decal_state =
    \<lparr>decals = [example_decal], placementMode = False,
     selectedDecalId = Some ''decal_1700000000000''\<rparr>"

definition example_click :: click where
  "example_click =
    \<lparr>button = 0, on_canvas = True,
     intersection = Some (\<lparr>vec_x = Fin 1, vec_y = Fin 0.5, vec_z = Fin 0\<rparr>,
                          Some \<lparr>vec_x = Fin 1, vec_y = Fin 0, vec_z = Fin 0\<rparr>)\<rparr>"

definition example_three :: three where
  "example_three =
    \<lparr>worldNormal = (\<lambda>n. n),
     eulerFromNormal = (\<lambda>n.
       if n = \<lparr>vec_x = Fin 1, vec_y = Fin 0, vec_z = Fin 0\<rparr>
       then \<lparr>vec_x = Fin 0, vec_y = Fin (pi / 2), vec_z = Fin 0\<rparr>
       else \<lparr>vec_x = Fin 0, vec_y = Fin 0, vec_z = Fin 0\<rparr>)\<rparr>"

section \<open>Properties of the function call mapper\<close>

lemma own_obj: "own (obj kvs) k = (case map_of kvs k of Some v \<Rightarrow> v | None \<Rightarrow> JUndefined)"
  by (simp add: own_def obj_def fmlookup_of_list)

lemma command_type_known:
  "ct \<notin> JStr ` set command_types \<Longrightarrow>
     ct \<noteq> JStr ''change_model'' \<and> ct \<noteq> JStr ''change_color'' \<and> ct \<noteq> JStr ''adjust_lift'' \<and>
     ct \<noteq> JStr ''change_rims'' \<and> ct \<noteq> JStr ''change_tires'' \<and>
     ct \<noteq> JStr ''change_wheel_setup'' \<and> ct \<noteq> JStr ''add_bumper'' \<and>
     ct \<noteq> JStr ''add_sliders'' \<and> ct \<noteq> JStr ''add_roof_rack'' \<and>
     ct \<noteq> JStr ''toggle_spare_tire'' \<and> ct \<noteq> JStr ''reset_vehicle''"
  unfolding command_types_def by (intro conjI notI) simp_all

text \<open>
  Claim C6, as the code has it. For an argument bag that is not null or undefined,
  \<open>transformParameters\<close> fills each renamed field from its chain of aliases by the first
  \<^emph>\<open>truthy\<close> value: \<open>lift_height\<close> is \<open>args.lift_height\<close> when that is truthy, else \<open>args.lift\<close>
  when that is truthy, else 0; a two-alias chain yields the first alias when it is truthy
  and the second alias otherwise. A falsy value (0, the empty string, false, null, NaN) of
  an earlier alias therefore does not win over a later one. For a command type outside the
  known ones the argument bag is returned unchanged.
\<close>

theorem transformParameters_first_truthy:
  assumes "\<not> nullish args"
  shows "transformParameters (JStr ''adjust_lift'') args =
           Inr (obj [(''lift_height'',
                      if truthy (own args ''lift_height'') then own args ''lift_height''
                      else if truthy (own args ''lift'') then own args ''lift''
                      else JNum (Fin 0))])
       \<and> transformParameters (JStr ''change_rims'') args =
           Inr (obj [(''rim_id'', own args ''rim_id''),
                     (''color'', if truthy (own args ''color'') then own args ''color''
                                 else own args ''rim_color''),
                     (''secondary_color'',
                      if truthy (own args ''secondary_color'') then own args ''secondary_color''
                      else own args ''rim_color_secondary'')])
       \<and> transformParameters (JStr ''change_tires'') args =
           Inr (obj [(''tire_id'', own args ''tire_id''),
                     (''diameter'', if truthy (own args ''diameter'') then own args ''diameter''
                                    else own args ''tire_diameter'')])
       \<and> transformParameters (JStr ''add_bumper'') args =
           Inr (obj [(''bumper_type'', if truthy (own args ''bumper_type'')
                                       then own args ''bumper_type'' else own args ''type'')])
       \<and> transformParameters (JStr ''add_sliders'') args =
           Inr (obj [(''slider_type'', if truthy (own args ''slider_type'')
                                       then own args ''slider_type'' else own args ''type'')])
       \<and> transformParameters (JStr ''add_roof_rack'') args =
           Inr (obj [(''rack_type'', if truthy (own args ''rack_type'')
                                     then own args ''rack_type'' else own args ''type'')])
       \<and> (\<forall>ct. ct \<notin> JStr ` set command_types \<longrightarrow> transformParameters ct args = Inr args)"
proof -
  have unknown: "transformParameters ct args = Inr args" if "ct \<notin> JStr ` set command_types" for ct
    using command_type_known [OF that] by (simp add: transformParameters_def)
  show ?thesis
    using assms unknown by (simp add: transformParameters_def js_or_def)
qed

text \<open>The theorem at the argument bag \<open>{lift_height: 0, lift: 3}\<close>, for \<open>adjust_lift\<close> and for
  an unknown command type.\<close>

theorem transformParameters_first_truthy_witness:
  "\<not> nullish (obj [(''lift_height'', JNum (Fin 0)), (''lift'', JNum (Fin 3))]) \<and>
   transformParameters (JStr ''adjust_lift'')
     (obj [(''lift_height'', JNum (Fin 0)), (''lift'', JNum (Fin 3))]) =
   Inr (obj [(''lift_height'', JNum (Fin 3))]) \<and>
   transformParameters (JStr ''frobnicate'')
     (obj [(''lift_height'', JNum (Fin 0)), (''lift'', JNum (Fin 3))]) =
   Inr (obj [(''lift_height'', JNum (Fin 0)), (''lift'', JNum (Fin 3))])"
proof -
  have n: "\<not> nullish (obj [(''lift_height'', JNum (Fin 0)), (''lift'', JNum (Fin 3))])"
    by (simp add: nullish_def obj_def)
  have u: "JStr ''frobnicate'' \<notin> JStr ` set command_types"
    by (simp add: command_types_def)
  show ?thesis
    using n u transformParameters_first_truthy [OF n] by (simp add: own_obj)
qed

text \<open>
  Claim C6 as stated fails: with \<open>{lift_height: 0, lift: 3}\<close> the null-coalescing chain
  \<open>lift_height ?? lift ?? 0\<close> is 0, the explicitly provided value, while the code yields 3.
\<close>

theorem transformParameters_zero_falls_through:
  "transformParameters (JStr ''adjust_lift'')
     (obj [(''lift_height'', JNum (Fin 0)), (''lift'', JNum (Fin 3))]) =
   Inr (obj [(''lift_height'', JNum (Fin 3))]) \<and>
   coalesce (own (obj [(''lift_height'', JNum (Fin 0)), (''lift'', JNum (Fin 3))]) ''lift_height'')
     (coalesce (own (obj [(''lift_height'', JNum (Fin 0)), (''lift'', JNum (Fin 3))]) ''lift'')
        (JNum (Fin 0))) = JNum (Fin 0)"
  by (simp add: transformParameters_def js_or_def own_def coalesce_def nullish_def obj_def)

lemma truthy_obj [simp]: "truthy (obj kvs)"
  by (simp add: obj_def)

lemma not_nullish_obj [simp]: "\<not> nullish (obj kvs)"
  by (simp add: obj_def nullish_def)

lemma truthy_not_nullish: "truthy v \<Longrightarrow> \<not> nullish v"
  by (auto simp: nullish_def)

lemma js_or_obj_not_nullish: "\<not> nullish (js_or a (obj kvs))"
  by (auto simp: js_or_def obj_def nullish_def)

lemma transformParameters_returns: "\<not> nullish args \<Longrightarrow> \<exists>ps. transformParameters ct args = Inr ps"
  by (simp add: transformParameters_def)

lemma generateDescription_returns: "\<not> nullish args \<Longrightarrow> \<exists>d. generateDescription env n args = Inr d"
  by (simp add: generateDescription_def Let_def)

lemma parseFunctionCall_never_throws: "\<exists>r. parseFunctionCall env functionCall = Inr r"
proof -
  let ?a = "js_or (own functionCall ''args'') (obj [])"
  have n: "\<not> nullish ?a" by (rule js_or_obj_not_nullish)
  obtain ps where ps: "transformParameters (mapFunctionNameToCommandType env (own functionCall ''name'')) ?a = Inr ps"
    using transformParameters_returns [OF n] by blast
  obtain d where d: "generateDescription env (own functionCall ''name'') ?a = Inr d"
    using generateDescription_returns [OF n] by blast
  show ?thesis
    by (simp add: parseFunctionCall_def Let_def ps d)
qed

lemma parseFunctionCall_without_name:
  "\<not> truthy (own functionCall ''name'') \<Longrightarrow> parseFunctionCall env functionCall = Inr JNull"
  by (simp add: parseFunctionCall_def)

lemma mapFunctionName_unlisted:
  assumes "n \<notin> fst ` set mapping" "n \<notin> set Object_prototype_keys"
  shows "mapFunctionNameToCommandType env (JStr n) = JNull"
proof -
  have "map_of (map (\<lambda>(k, c). (k, JStr c)) mapping) n = None"
    using assms(1) by (simp add: map_of_eq_None_iff image_image split_def)
  then show ?thesis
    using assms(2)
    by (simp add: mapFunctionNameToCommandType_def lookup_key_def to_string_def fmlookup_of_list
        js_or_def)
qed

lemma parseFunctionCall_unlisted_name:
  assumes "own functionCall ''name'' = JStr n" "n \<notin> fst ` set mapping"
    "n \<notin> set Object_prototype_keys"
  shows "parseFunctionCall env functionCall = Inr JNull"
  using assms(1) mapFunctionName_unlisted [OF assms(2,3)]
  by (simp add: parseFunctionCall_def Let_def)

lemma scanParts_unrecognised:
  assumes "\<forall>p \<in> set parts. \<not> nullish p \<and>
             (truthy (own p ''functionCall'') \<longrightarrow>
              parseFunctionCall env (own p ''functionCall'') = Inr JNull)"
  shows "scanParts env parts commands = Inr commands"
  using assms by (induction parts arbitrary: commands) auto

lemma parseFunctionCallsFromEvent_unrecognised:
  assumes "truthy (own eventData ''functionCall'') \<longrightarrow>
             parseFunctionCall env (own eventData ''functionCall'') = Inr JNull"
    and "truthy (own eventData ''content'') \<longrightarrow>
           (\<forall>parts. own (own eventData ''content'') ''parts'' = JArr parts \<longrightarrow>
              (\<forall>p \<in> set parts. \<not> nullish p \<and>
                 (truthy (own p ''functionCall'') \<longrightarrow>
                  parseFunctionCall env (own p ''functionCall'') = Inr JNull)))"
    and "\<forall>parts. own eventData ''parts'' = JArr parts \<longrightarrow>
           (\<forall>p \<in> set parts. \<not> nullish p \<and>
              (truthy (own p ''functionCall'') \<longrightarrow>
               parseFunctionCall env (own p ''functionCall'') = Inr JNull))"
  shows "parseFunctionCallsFromEvent env eventData = Inr []"
  using assms
  by (auto simp: parseFunctionCallsFromEvent_def scanParts_unrecognised split: jsval.splits)

lemma map_toString:
  "mapFunctionNameToCommandType env (JStr ''toString'') = JBuiltin ''toString''"
  by (simp add: mapFunctionNameToCommandType_def lookup_key_def to_string_def fmlookup_of_list
      js_or_def mapping_def Object_prototype_keys_def)

lemma transform_toString:
  "transformParameters (JBuiltin ''toString'') (obj []) = Inr (obj [])"
  by (simp add: transformParameters_def)

lemma describe_toString:
  "generateDescription env (JStr ''toString'') (obj []) = Inr ''Executed toString''"
  by (simp add: generateDescription_def map_toString to_string_def)

lemma parse_toString:
  "parseFunctionCall env (obj [(''name'', JStr ''toString''), (''args'', obj [])]) =
     Inr (obj [(''command_type'', JBuiltin ''toString''),
               (''parameters'', obj []),
               (''description'', JStr ''Executed toString''),
               (''client_id'', JStr ''default''),
               (''function_call_id'', JUndefined)])"
proof -
  have a: "js_or (obj []) (obj []) = obj []"
    by (simp add: js_or_def)
  have c: "js_or (optchain (obj []) ''client_id'') (JStr ''default'') = JStr ''default''"
    by (simp add: js_or_def optchain_def own_obj)
  show ?thesis
    by (simp add: parseFunctionCall_def Let_def own_obj map_toString a c transform_toString
        describe_toString)
qed

text \<open>
  Claim C7. A function call without a name, or with an empty one, parses to null, and so does
  a call whose name is neither a key of the alias table nor a member name of
  \<open>Object.prototype\<close>; \<open>parseFunctionCall\<close> never raises (the lemmas above). But the claim
  does not hold for every name outside the alias table: the table is an object literal and
  \<open>mapping[functionName]\<close> finds the members it inherits. For the call
  \<open>{name: "toString", args: {}}\<close>, whose name is not in the table, the lookup yields the
  built-in function, \<open>|| null\<close> does not apply, and the call parses to a command whose
  \<open>command_type\<close> is that function; an event payload that carries only this call yields an
  array of one command.
\<close>

theorem parseFunctionCall_inherited_name:
  "parseFunctionCall example_env (obj [(''name'', JStr ''toString''), (''args'', obj [])]) =
     Inr (obj [(''command_type'', JBuiltin ''toString''),
               (''parameters'', obj []),
               (''description'', JStr ''Executed toString''),
               (''client_id'', JStr ''default''),
               (''function_call_id'', JUndefined)])
   \<and> ''toString'' \<notin> fst ` set mapping
   \<and> parseFunctionCallsFromEvent example_env
       (obj [(''functionCall'', obj [(''name'', JStr ''toString''), (''args'', obj [])])]) =
     Inr [obj [(''command_type'', JBuiltin ''toString''),
               (''parameters'', obj []),
               (''description'', JStr ''Executed toString''),
               (''client_id'', JStr ''default''),
               (''function_call_id'', JUndefined)]]"
proof -
  have t: "''toString'' \<notin> fst ` set mapping"
    by (simp add: mapping_def)
  have e: "parseFunctionCallsFromEvent example_env
       (obj [(''functionCall'', obj [(''name'', JStr ''toString''), (''args'', obj [])])]) =
     Inr [obj [(''command_type'', JBuiltin ''toString''),
               (''parameters'', obj []),
               (''description'', JStr ''Executed toString''),
               (''client_id'', JStr ''default''),
               (''function_call_id'', JUndefined)]]"
    by (simp add: parseFunctionCallsFromEvent_def own_obj parse_toString)
  show ?thesis using parse_toString t e by blast
qed

text \<open>At this input the result is therefore not null, and the array of the event is not
  empty.\<close>

theorem parseFunctionCall_inherited_name_witness:
  "parseFunctionCall example_env (obj [(''name'', JStr ''toString''), (''args'', obj [])]) \<noteq>
     Inr JNull \<and>
   parseFunctionCallsFromEvent example_env
     (obj [(''functionCall'', obj [(''name'', JStr ''toString''), (''args'', obj [])])]) \<noteq>
     Inr []"
  using parseFunctionCall_inherited_name by (simp add: obj_def)

section \<open>Properties of the vehicle update handler\<close>

lemma fmdom'_of_list: "fmdom' (fmap_of_list kvs) = fst ` set kvs"
  by (simp add: fmdom'_alt_def fset_of_list.rep_eq)

lemma props_of_obj: "props_of (obj kvs) = fmap_of_list kvs"
  by (simp add: props_of_def obj_def)

lemma setVehicle_obj_dom:
  "fmdom' (currentVehicle (setVehicle (obj kvs) s)) = fmdom' (currentVehicle s) \<union> fst ` set kvs"
  by (simp add: setVehicle_def props_of_obj fmdom'_of_list)





lemma fmadd_covered: "fmdom' m \<subseteq> fmdom' n \<Longrightarrow> m ++\<^sub>f n = n"
  by (rule fmap_ext) (auto simp: fmlookup_dom'_iff fmlookup_dom_iff)

lemma merge_is_snapshot: "(m ++\<^sub>f n = n) = (fmdom' m \<subseteq> fmdom' n)"
proof
  assume "m ++\<^sub>f n = n"
  then have "fmdom' (m ++\<^sub>f n) = fmdom' n" by simp
  then show "fmdom' m \<subseteq> fmdom' n" by auto
next
  assume "fmdom' m \<subseteq> fmdom' n"
  then show "m ++\<^sub>f n = n" by (rule fmadd_covered)
qed

lemma fmlookup_add_case:
  "fmlookup (m ++\<^sub>f n) k = (case fmlookup n k of Some v \<Rightarrow> Some v | None \<Rightarrow> fmlookup m k)"
  by (auto simp: fmlookup_dom_iff split: option.splits)

lemma vehicle_field_merged:
  "vehicle_field (s\<lparr>currentVehicle := currentVehicle s ++\<^sub>f fs\<rparr>) k =
     (case fmlookup fs k of Some v \<Rightarrow> v | None \<Rightarrow> vehicle_field s k)"
  by (simp add: vehicle_field_def own_def fmlookup_add_case del: fmlookup_add
      split: option.splits)

lemma syncVehicleState_merges:
  "syncVehicleState (JObj fs) s = (True, s\<lparr>currentVehicle := currentVehicle s ++\<^sub>f fs\<rparr>)"
  by (simp add: syncVehicleState_def setVehicle_def props_of_def)

lemma own_eq_JArr_truthy: "own v k = JArr xs \<Longrightarrow> truthy v"
  by (cases v) (simp_all add: own_def)

lemma processAgentResponse_fallback:
  assumes upd: "own sr ''vehicle_updates'' = JArr us"
    and err: "\<not> truthy (own sr ''error'')"
    and fin: "own sr ''final_vehicle_state'' = JObj fs"
    and run: "applyVehicleUpdates env (JArr us) s = Inr ((a, b), s1)" "0 < b"
  shows "processAgentResponse env sr s =
           Inr (False, s1\<lparr>currentVehicle := currentVehicle s1 ++\<^sub>f fs\<rparr>)"
proof -
  have t: "truthy sr" by (rule own_eq_JArr_truthy [OF upd])
  have ne: "us \<noteq> []" using run by (auto simp: applyVehicleUpdates_def)
  show ?thesis
    using t err ne run
    by (simp add: processAgentResponse_def Let_def upd fin length_positive_def
        syncVehicleState_merges)
qed

text \<open>
  Claim C1, as the code has it. Let the response carry no error, an array of commands of
  which at least one fails to apply (the run of \<open>applyVehicleUpdates\<close> returns a positive
  failed count), and an object as \<open>final_vehicle_state\<close>. Then \<open>processAgentResponse\<close> returns
  \<open>false\<close> and has merged the snapshot over the configuration that the commands left: every
  key of the snapshot holds the snapshot's value, every other key holds what it held. For a
  full snapshot each of the fourteen fields of a VehicleConfiguration has the snapshot's
  value, so no write of the commands to them survives. The live configuration is the snapshot
  itself exactly when it had no key that the snapshot lacks.
\<close>

theorem final_state_merged_after_failure:
  assumes upd: "own sr ''vehicle_updates'' = JArr us"
    and err: "\<not> truthy (own sr ''error'')"
    and fin: "own sr ''final_vehicle_state'' = JObj fs"
    and run: "applyVehicleUpdates env (JArr us) s = Inr ((a, b), s1)" "0 < b"
  shows "processAgentResponse env sr s =
           Inr (False, s1\<lparr>currentVehicle := currentVehicle s1 ++\<^sub>f fs\<rparr>) \<and>
         (\<forall>k v. fmlookup fs k = Some v \<longrightarrow>
            vehicle_field (s1\<lparr>currentVehicle := currentVehicle s1 ++\<^sub>f fs\<rparr>) k = v) \<and>
         (\<forall>k. fmlookup fs k = None \<longrightarrow>
            vehicle_field (s1\<lparr>currentVehicle := currentVehicle s1 ++\<^sub>f fs\<rparr>) k =
              vehicle_field s1 k) \<and>
         (full_configuration fs \<longrightarrow>
            (\<forall>k \<in> set vehicle_fields.
               vehicle_field (s1\<lparr>currentVehicle := currentVehicle s1 ++\<^sub>f fs\<rparr>) k =
                 own (JObj fs) k)) \<and>
         ((currentVehicle s1 ++\<^sub>f fs = fs) = (fmdom' (currentVehicle s1) \<subseteq> fmdom' fs))"
proof (intro conjI allI impI ballI)
  show "processAgentResponse env sr s =
           Inr (False, s1\<lparr>currentVehicle := currentVehicle s1 ++\<^sub>f fs\<rparr>)"
    by (rule processAgentResponse_fallback [OF upd err fin run])
next
  fix k v assume "fmlookup fs k = Some v"
  then show "vehicle_field (s1\<lparr>currentVehicle := currentVehicle s1 ++\<^sub>f fs\<rparr>) k = v"
    by (simp add: vehicle_field_merged)
next
  fix k assume "fmlookup fs k = None"
  then show "vehicle_field (s1\<lparr>currentVehicle := currentVehicle s1 ++\<^sub>f fs\<rparr>) k =
               vehicle_field s1 k"
    by (simp add: vehicle_field_merged)
next
  fix k assume "full_configuration fs" and "k \<in> set vehicle_fields"
  then have "fmlookup fs k \<noteq> None" by (simp add: full_configuration_def)
  then show "vehicle_field (s1\<lparr>currentVehicle := currentVehicle s1 ++\<^sub>f fs\<rparr>) k =
               own (JObj fs) k"
    by (auto simp: vehicle_field_merged own_def)
next
  show "(currentVehicle s1 ++\<^sub>f fs = fs) = (fmdom' (currentVehicle s1) \<subseteq> fmdom' fs)"
    by (rule merge_is_snapshot)
qed

lemma example_run:
  "applyVehicleUpdates example_env (JArr [red_command, unknown_command]) s =
     Inr ((1, 1), setVehicle (obj [(''color'', JStr ''#FF0000'')]) s)"
proof -
  have r: "applyVehicleUpdate example_env red_command s =
             Inr (True, setVehicle (obj [(''color'', JStr ''#FF0000'')]) s)"
    by (simp add: applyVehicleUpdate_def red_command_def own_obj handleChangeColor_def Let_def)
  have u: "applyVehicleUpdate example_env unknown_command s1 = Inr (False, s1)" for s1
    by (simp add: applyVehicleUpdate_def unknown_command_def own_obj Let_def)
  show ?thesis
    by (simp add: applyVehicleUpdates_def r u)
qed

lemma example_response_parts:
  "own example_response ''vehicle_updates'' = JArr [red_command, unknown_command]"
  "\<not> truthy (own example_response ''error'')"
  "own example_response ''final_vehicle_state'' = JObj example_final_state"
  by (simp_all add: example_response_def own_obj)

text \<open>
  The theorem at a response with a colour change to red, a command of unknown type and the
  complete state of the mock responses, on the default configuration: the result is that
  complete state, with its black paint.
\<close>

theorem final_state_merged_after_failure_witness:
  "processAgentResponse example_env example_response example_store =
     Inr (False, example_store\<lparr>currentVehicle := example_final_state\<rparr>) \<and>
   vehicle_field (example_store\<lparr>currentVehicle := example_final_state\<rparr>) ''color'' =
     JStr ''#000000''"
proof -
  let ?s1 = "setVehicle (obj [(''color'', JStr ''#FF0000'')]) example_store"
  have pos: "(0::nat) < 1" by simp
  note t = final_state_merged_after_failure [OF example_response_parts example_run pos,
      of example_store]
  have "fmdom' (currentVehicle ?s1) \<subseteq> fmdom' example_final_state"
    by (simp add: setVehicle_obj_dom example_store_def example_defaults_def
        example_final_state_def fmdom'_of_list)
  with t have m: "currentVehicle ?s1 ++\<^sub>f example_final_state = example_final_state" by simp
  have c: "vehicle_field (example_store\<lparr>currentVehicle := example_final_state\<rparr>) ''color'' =
     JStr ''#000000''"
    by (simp add: vehicle_field_def own_def example_final_state_def)
  have e: "?s1\<lparr>currentVehicle := currentVehicle ?s1 ++\<^sub>f example_final_state\<rparr> =
     example_store\<lparr>currentVehicle := example_final_state\<rparr>"
    by (subst m) (simp add: setVehicle_def)
  from t have "processAgentResponse example_env example_response example_store =
     Inr (False, ?s1\<lparr>currentVehicle := currentVehicle ?s1 ++\<^sub>f example_final_state\<rparr>)"
    by simp
  then show ?thesis using c by (simp only: e)
qed

text \<open>
  Claim C1 as stated fails when the live configuration holds a key that the snapshot lacks.
  \<open>setVehicleConfiguration({nickname: "Trail rig"})\<close> succeeds on the default configuration;
  the same response then leaves a configuration that still holds the nickname and so is not
  the snapshot.
\<close>

theorem final_state_keeps_other_keys:
  "setVehicleConfiguration example_env nickname_config example_store =
     (Success, nickname_store) \<and>
   processAgentResponse example_env example_response nickname_store =
     Inr (False, setVehicle (JObj example_final_state)
                   (setVehicle (obj [(''color'', JStr ''#FF0000'')]) nickname_store)) \<and>
   vehicle_field (setVehicle (JObj example_final_state)
                   (setVehicle (obj [(''color'', JStr ''#FF0000'')]) nickname_store))
     ''nickname'' = JStr ''Trail rig'' \<and>
   own (JObj example_final_state) ''nickname'' = JUndefined \<and>
   currentVehicle (setVehicle (JObj example_final_state)
                   (setVehicle (obj [(''color'', JStr ''#FF0000'')]) nickname_store)) \<noteq>
     example_final_state"
proof -
  let ?s2 = "setVehicle (JObj example_final_state)
               (setVehicle (obj [(''color'', JStr ''#FF0000'')]) nickname_store)"
  have a: "setVehicleConfiguration example_env nickname_config example_store =
     (Success, nickname_store)"
    by (simp add: setVehicleConfiguration_def nickname_config_def nickname_store_def own_obj)
      (simp add: obj_def)
  have pos: "(0::nat) < 1" by simp
  have b: "processAgentResponse example_env example_response nickname_store = Inr (False, ?s2)"
    using processAgentResponse_fallback [OF example_response_parts example_run pos,
        of nickname_store]
    by (simp add: setVehicle_def props_of_def)
  have l: "fmlookup (currentVehicle ?s2) ''nickname'' = Some (JStr ''Trail rig'')"
    by (simp add: setVehicle_def props_of_def obj_def nickname_store_def nickname_config_def
        example_final_state_def)
  have n: "fmlookup example_final_state ''nickname'' = None"
    by (simp add: example_final_state_def)
  have c: "vehicle_field ?s2 ''nickname'' = JStr ''Trail rig''"
    using l by (simp add: vehicle_field_def own_def)
  have d: "own (JObj example_final_state) ''nickname'' = JUndefined"
    using n by (simp add: own_def)
  have e: "currentVehicle ?s2 \<noteq> example_final_state"
    using l n by auto
  show ?thesis using a b c d e by blast
qed



section \<open>Properties of the scene handlers\<close>

lemma vehicle_field_setVehicle_obj:
  "vehicle_field (setVehicle (obj kvs) s) k =
     (case map_of kvs k of Some v \<Rightarrow> v | None \<Rightarrow> vehicle_field s k)"
  by (simp add: vehicle_field_def own_def setVehicle_def props_of_obj fmlookup_add_case
      fmlookup_of_list del: fmlookup_add split: option.splits)


text \<open>The test of the code on a catalog map and the membership test of the specification
  differ at the inherited names only.\<close>

lemma found_catalog_lookup:
  "found (catalog_lookup m k) = (isKnownId k m \<or> k \<in> set Object_prototype_keys)"
  by (simp add: catalog_lookup_def isKnownId_def split: option.splits)



lemma input_rejected_simps:
  "input_rejected env ''body'' v = (\<not> isKnownId (to_string env v) (vehicles env))"
  "input_rejected env ''color'' v = (\<not> isHexColor (to_string env v))"
  "input_rejected env ''roughness'' v =
     out_of_range (parseFloat env v) ROUGHNESS_MIN ROUGHNESS_MAX"
  "input_rejected env ''lift'' v = out_of_range (parseFloat env v) LIFT_MIN LIFT_MAX"
  "input_rejected env ''rim'' v = (\<not> isKnownId (to_string env v) (rims env))"
  "input_rejected env ''rim_color'' v = (\<not> rim_color_valid env v)"
  "input_rejected env ''rim_color_secondary'' v = (\<not> rim_color_valid env v)"
  "input_rejected env ''rim_diameter'' v =
     out_of_range (parseInt env v) RIM_DIAMETER_MIN RIM_DIAMETER_MAX"
  "input_rejected env ''rim_width'' v =
     out_of_range (parseFloat env v) RIM_WIDTH_MIN RIM_WIDTH_MAX"
  "input_rejected env ''tire'' v = (\<not> isKnownId (to_string env v) (tires env))"
  "input_rejected env ''tire_diameter'' v =
     out_of_range (parseInt env v) TIRE_DIAMETER_MIN TIRE_DIAMETER_MAX"
  "input_rejected env ''wheel_offset'' v = (parseFloat env v = NaN)"
  by (simp_all add: input_rejected_def)





subsection \<open>Failure writes nothing\<close>


subsection \<open>A rejected input makes the call fail\<close>












subsection \<open>The direct batch\<close>

lemma batchItem_unknown:
  assumes "operation \<notin> JStr ` set batch_operations"
  shows "batchItem env operation params s = (Failure [UnknownOperation operation], s)"
proof -
  from assms have "operation \<noteq> JStr ''setVehicleBody''" "operation \<noteq> JStr ''setVehicleColor''"
    "operation \<noteq> JStr ''setVehicleLift''" "operation \<noteq> JStr ''setRim''"
    "operation \<noteq> JStr ''setTire''" "operation \<noteq> JStr ''setVehicleAddon''"
    "operation \<noteq> JStr ''toggleSpareTire''"
    unfolding batch_operations_def by (simp_all add: image_iff)
  then show ?thesis by (simp add: batchItem_def)
qed

lemma batchLoop_run_items:
  assumes "\<forall>u \<in> set us. \<not> nullish u"
  shows "batchLoop env us res sc fc s =
           Inr ((res @ fst (run_items env us s),
                 sc + length (filter (\<lambda>(operation, r). succeeded r) (fst (run_items env us s))),
                 fc + length (filter (\<lambda>(operation, r). \<not> succeeded r) (fst (run_items env us s)))),
                snd (run_items env us s))"
  using assms
proof (induction us arbitrary: res sc fc s)
  case Nil
  then show ?case by simp
next
  case (Cons u us)
  obtain r s1 where i: "batchItem env (own u ''operation'') (own u ''params'') s = (r, s1)"
    by (cases "batchItem env (own u ''operation'') (own u ''params'') s")
  obtain rs s2 where rr: "run_items env us s1 = (rs, s2)"
    by (cases "run_items env us s1")
  from Cons.prems have n: "\<not> nullish u" and rest: "\<forall>u \<in> set us. \<not> nullish u" by simp_all
  show ?case
    using n by (simp add: i rr Cons.IH [OF rest] Let_def)
qed


text \<open>The loop stops at the first item that is null or undefined, with what the items
  before it wrote.\<close>

lemma batchLoop_null_item:
  assumes "\<forall>u \<in> set xs. \<not> nullish u" "nullish n"
  shows "batchLoop env (xs @ n # ys) res sc fc s = Inl (TypeError, snd (run_items env xs s))"
  using assms(1)
proof (induction xs arbitrary: res sc fc s)
  case Nil
  with assms(2) show ?case by simp
next
  case (Cons u us)
  obtain r s1 where i: "batchItem env (own u ''operation'') (own u ''params'') s = (r, s1)"
    by (cases "batchItem env (own u ''operation'') (own u ''params'') s")
  obtain rs s2 where rr: "run_items env us s1 = (rs, s2)"
    by (cases "run_items env us s1")
  from Cons.prems have n: "\<not> nullish u" and rest: "\<forall>u \<in> set us. \<not> nullish u" by simp_all
  show ?case
    using n Cons.IH [OF rest, of _ _ _ s1] by (simp add: i rr Let_def)
qed

lemma run_items_length: "length (fst (run_items env us s)) = length us"
  by (induction us arbitrary: s) (simp_all add: Let_def split_beta)

lemma run_items_operations:
  "map fst (fst (run_items env us s)) = map (\<lambda>u. own u ''operation'') us"
  by (induction us arbitrary: s) (simp_all add: Let_def split_beta)



lemma example_env_simps:
  "parseFloat example_env = example_parseFloat"
  "parseInt example_env = example_parseInt"
  "toStringJS example_env = example_toString"
  "toNumberJS example_env = example_toNumber"
  "vehicles example_env = example_vehicles"
  "rims example_env = fmap_of_list [(''xd_grenade'', ()), (''xd_machete'', ())]"
  "tires example_env = fmap_of_list [(''bfg_km3'', ()), (''bfg_at'', ())]"
  "defaults example_env = example_defaults"
  by (simp_all add: example_env_def)

lemma to_string_JStr [simp]: "to_string env (JStr str) = str"
  by (simp add: to_string_def)

lemma example_store_field:
  "vehicle_field example_store k =
     (case map_of
        [(''body'', JStr ''toyota_4runner_5g''), (''lift'', JNum (Fin 0)),
         (''color'', JStr ''#B91818''), (''roughness'', JNum (Fin 0)), (''addons'', obj []),
         (''wheel_offset'', JNum (Fin 0)), (''rim'', JStr ''xd_grenade''),
         (''rim_color'', JStr ''silver''), (''rim_color_secondary'', JStr ''silver''),
         (''rim_diameter'', JNum (Fin 17)), (''rim_width'', JNum (Fin 10)),
         (''tire'', JStr ''bfg_km3''), (''tire_diameter'', JNum (Fin 32)),
         (''spare'', JBool True)] k of Some v \<Rightarrow> v | None \<Rightarrow> JUndefined)"
  by (simp add: vehicle_field_def own_def example_store_def example_defaults_def
      fmlookup_of_list)

lemma example_lookups:
  "found (catalog_lookup (rims example_env) ''bad'') = False"
  "found (catalog_lookup (vehicles example_env) ''jeep_jku'') = True"
  "found (catalog_lookup (vehicles example_env) ''toyota_4runner_5g'') = True"
  "found (catalog_lookup (vehicles example_env) ''ghost'') = False"
  "found (catalog_lookup (vehicles example_env) ''constructor'') = True"
  by (simp_all add: catalog_lookup_def example_env_simps example_vehicles_def
      fmlookup_of_list Object_prototype_keys_def)





text \<open>
  The two kinds of input that the theorem leaves open. A wheel offset that is no number is
  dropped without an error, unlike the seven fields before it: in
  \<open>{wheel_offset: "abc", tire_diameter: 33}\<close> the call succeeds and writes the tire diameter.
  And a lookup in a map of the catalog finds the members that the map inherits:
  \<open>setVehicleBody("constructor")\<close> succeeds.
\<close>

lemma setWheelConfiguration_drops_bad_offset:
  "input_rejected example_env ''wheel_offset'' (JStr ''abc'') \<and>
   setWheelConfiguration example_env bad_offset_params example_store =
     Inr (Success, setVehicle (obj [(''tire_diameter'', JNum (Fin 33))]) example_store)"
proof -
  have r: "input_rejected example_env ''wheel_offset'' (JStr ''abc'')"
    by (simp add: input_rejected_simps example_env_simps example_parseFloat_def)
  have e: "wheel_errors example_env bad_offset_params = []"
    by (simp add: wheel_errors_def bad_offset_params_def own_obj Let_def example_env_simps(2)
        example_parseInt_def out_of_range_def TIRE_DIAMETER_MIN_def TIRE_DIAMETER_MAX_def)
  have u: "wheel_updates example_env bad_offset_params = [(''tire_diameter'', JNum (Fin 33))]"
    by (simp add: wheel_updates_def bad_offset_params_def own_obj Let_def example_env_simps(1,2)
        example_parseInt_def example_parseFloat_def out_of_range_def TIRE_DIAMETER_MIN_def
        TIRE_DIAMETER_MAX_def)
  have w: "setWheelConfiguration example_env bad_offset_params example_store =
     Inr (Success, setVehicle (obj [(''tire_diameter'', JNum (Fin 33))]) example_store)"
    by (simp add: setWheelConfiguration_def Let_def e u) (simp add: bad_offset_params_def)
  show ?thesis using r w by blast
qed

lemma setVehicleBody_inherited_name:
  assumes "inherited_name env v"
  shows "setVehicleBody env v s = (Success, setVehicle (obj [(''body'', v)]) s)"
  using assms by (simp add: setVehicleBody_def found_catalog_lookup inherited_name_def)

subsection \<open>What the write paths commit\<close>



























subsection \<open>The direct batch and its items\<close>

text \<open>
  For an array whose items are objects, \<open>applyBatchUpdates\<close> returns a batch result; its
  result list and its final store are those of running every item in input order, each on
  the store its predecessor left, whatever the predecessor's outcome. There is one result
  per item, under the item's operation name; \<open>total\<close> is the number of items, the two counts
  count the successful and the failed results, and \<open>success\<close> says that no item failed. An
  unknown operation name is a failed item, not an exception.
\<close>

lemma applyBatchUpdates_runs_every_object:
  assumes "\<forall>u \<in> set us. \<not> nullish u"
  shows "\<exists>b. applyBatchUpdates env (JArr us) s = Inr (Batch b, snd (run_items env us s)) \<and>
             results b = fst (run_items env us s) \<and>
             length (results b) = length us \<and>
             map fst (results b) = map (\<lambda>u. own u ''operation'') us \<and>
             total b = length us \<and>
             successCount b = length (filter (\<lambda>(operation, r). succeeded r) (results b)) \<and>
             failureCount b = length (filter (\<lambda>(operation, r). \<not> succeeded r) (results b)) \<and>
             successCount b + failureCount b = total b \<and>
             success b = (failureCount b = 0) \<and>
             (\<forall>operation params s1. operation \<notin> JStr ` set batch_operations \<longrightarrow>
                batchItem env operation params s1 = (Failure [UnknownOperation operation], s1))"
proof -
  let ?rs = "fst (run_items env us s)"
  let ?b = "\<lparr>success = (length (filter (\<lambda>(operation, r). \<not> succeeded r) ?rs) = 0),
             total = length us,
             successCount = length (filter (\<lambda>(operation, r). succeeded r) ?rs),
             failureCount = length (filter (\<lambda>(operation, r). \<not> succeeded r) ?rs),
             results = ?rs\<rparr>"
  have a: "applyBatchUpdates env (JArr us) s = Inr (Batch ?b, snd (run_items env us s))"
    by (simp add: applyBatchUpdates_def batchLoop_run_items [OF assms])
  have "length (filter (\<lambda>(operation, r). succeeded r) ?rs) +
        length (filter (\<lambda>(operation, r). \<not> succeeded r) ?rs) = length ?rs"
    using sum_length_filter_compl [of "\<lambda>(operation, r). succeeded r" ?rs]
    by (simp add: split_def)
  then have c: "successCount ?b + failureCount ?b = total ?b"
    by (simp add: run_items_length)
  show ?thesis
    using a c batchItem_unknown
    by (intro exI [of _ ?b]) (simp add: run_items_length run_items_operations)
qed

lemma example_run_items:
  "run_items example_env example_updates example_store =
     ([(JStr ''setVehicleBody'', Success),
       (JStr ''setVehicleColor'', Failure [InvalidColorFormat (JStr ''invalid_color'')]),
       (JStr ''setVehicleLift'', Success)],
      setVehicle (obj [(''lift'', JNum (Fin 3))])
        (setVehicle (obj [(''body'', JStr ''jeep_jku'')]) example_store))"
proof -
  have a: "batchItem example_env (JStr ''setVehicleBody'') (JStr ''jeep_jku'') s =
             (Success, setVehicle (obj [(''body'', JStr ''jeep_jku'')]) s)" for s
    by (simp add: batchItem_def setVehicleBody_def example_lookups)
  have b: "batchItem example_env (JStr ''setVehicleColor'') (JStr ''invalid_color'') s =
             (Failure [InvalidColorFormat (JStr ''invalid_color'')], s)" for s
    by (simp add: batchItem_def setVehicleColor_def isHexColor_def)
  have c: "batchItem example_env (JStr ''setVehicleLift'') (JNum (Fin 3)) s =
             (Success, setVehicle (obj [(''lift'', JNum (Fin 3))]) s)" for s
    by (simp add: batchItem_def setVehicleLift_def example_env_simps example_parseFloat_def
        out_of_range_def LIFT_MIN_def LIFT_MAX_def)
  show ?thesis
    by (simp add: example_updates_def own_obj a b c)
qed

text \<open>The batch of the test suite: body \<open>jeep_jku\<close>, colour \<open>invalid_color\<close>, lift 3. Two
  successes, one failure, and the lift of the third item is in the store.\<close>

lemma example_batch:
  "applyBatchUpdates example_env (JArr example_updates) example_store =
     Inr (Batch \<lparr>success = False, total = 3, successCount = 2, failureCount = 1,
                 results =
                   [(JStr ''setVehicleBody'', Success),
                    (JStr ''setVehicleColor'',
                     Failure [InvalidColorFormat (JStr ''invalid_color'')]),
                    (JStr ''setVehicleLift'', Success)]\<rparr>,
          setVehicle (obj [(''lift'', JNum (Fin 3))])
            (setVehicle (obj [(''body'', JStr ''jeep_jku'')]) example_store))"
proof -
  have n: "\<forall>u \<in> set example_updates. \<not> nullish u" by (simp add: example_updates_def)
  have l: "length example_updates = 3" by (simp add: example_updates_def)
  show ?thesis
    by (simp add: applyBatchUpdates_def batchLoop_run_items [OF n] example_run_items l)
qed

text \<open>An item that is null or undefined ends the batch with an exception: the items before
  it have been run, the items after it are not.\<close>

lemma applyBatchUpdates_null_item:
  assumes "\<forall>u \<in> set xs. \<not> nullish u" "nullish n"
  shows "applyBatchUpdates env (JArr (xs @ n # ys)) s =
           Inl (TypeError, snd (run_items env xs s))"
  by (simp add: applyBatchUpdates_def batchLoop_null_item [OF assms])

text \<open>
  Claim C5 does not hold for every array: the \<open>catch\<close> block of the loop reads
  \<open>update.operation\<close>, so an item that is \<open>null\<close> raises a second time, outside any \<open>try\<close>.
  For the batch of a lift of 3 inches, \<open>null\<close>, and the colour \<open>"#FFD700"\<close> the call does not
  return a result: it raises after the first item has written the lift, and the third item
  is never run (the colour stays as it was).
\<close>

theorem applyBatchUpdates_null_item_aborts:
  "applyBatchUpdates example_env (JArr null_batch) example_store =
     Inl (TypeError, setVehicle (obj [(''lift'', JNum (Fin 3))]) example_store) \<and>
   vehicle_field (setVehicle (obj [(''lift'', JNum (Fin 3))]) example_store) ''lift'' =
     JNum (Fin 3) \<and>
   vehicle_field (setVehicle (obj [(''lift'', JNum (Fin 3))]) example_store) ''color'' =
     JStr ''#B91818''"
proof -
  have c: "batchItem example_env (JStr ''setVehicleLift'') (JNum (Fin 3)) s1 =
             (Success, setVehicle (obj [(''lift'', JNum (Fin 3))]) s1)" for s1
    by (simp add: batchItem_def setVehicleLift_def example_env_simps example_parseFloat_def
        out_of_range_def LIFT_MIN_def LIFT_MAX_def)
  have n: "nullish JNull" by (simp add: nullish_def)
  have a: "applyBatchUpdates example_env (JArr null_batch) example_store =
     Inl (TypeError, setVehicle (obj [(''lift'', JNum (Fin 3))]) example_store)"
    by (simp add: applyBatchUpdates_def null_batch_def own_obj c n)
  have b: "vehicle_field (setVehicle (obj [(''lift'', JNum (Fin 3))]) example_store) ''lift'' =
     JNum (Fin 3)"
    "vehicle_field (setVehicle (obj [(''lift'', JNum (Fin 3))]) example_store) ''color'' =
     JStr ''#B91818''"
    by (simp_all add: vehicle_field_setVehicle_obj example_store_field)
  show ?thesis using a b by blast
qed

text \<open>At this input the call therefore returns no batch result at all.\<close>

theorem applyBatchUpdates_null_item_aborts_witness:
  "\<not> (\<exists>r. applyBatchUpdates example_env (JArr null_batch) example_store = Inr r)"
  using applyBatchUpdates_null_item_aborts by simp

subsection \<open>Export and import\<close>

lemma setVehicle_self: "setVehicle (JObj (currentVehicle s)) s = s"
  by (simp add: setVehicle_def props_of_def)

text \<open>
  Claim C9, as the code has it. Importing what was just exported never changes the store.
  It succeeds when the body of the live configuration is falsy or an identifier of the
  catalog, and it fails with "invalid vehicle model" when the body is truthy, no identifier
  of the catalog, and not the name of a member inherited from \<open>Object.prototype\<close>.
\<close>

theorem export_import_roundtrip:
  "snd (importVehicleConfiguration env (exportVehicleConfiguration s) s) = s \<and>
   (\<not> truthy (vehicle_field s ''body'') \<or>
    isKnownId (to_string env (vehicle_field s ''body'')) (vehicles env) \<longrightarrow>
      importVehicleConfiguration env (exportVehicleConfiguration s) s = (Success, s)) \<and>
   (truthy (vehicle_field s ''body'') \<and>
    \<not> isKnownId (to_string env (vehicle_field s ''body'')) (vehicles env) \<and>
    \<not> inherited_name env (vehicle_field s ''body'') \<longrightarrow>
      importVehicleConfiguration env (exportVehicleConfiguration s) s =
        (Failure [InvalidVehicleModel (vehicle_field s ''body'')], s))"
  by (auto simp: importVehicleConfiguration_def exportVehicleConfiguration_def
      setVehicleConfiguration_def vehicle_field_def setVehicle_self found_catalog_lookup
      inherited_name_def)

text \<open>
  The theorem at the default configuration.
\<close>

theorem export_import_roundtrip_witness:
  "isKnownId (to_string example_env (vehicle_field example_store ''body''))
     (vehicles example_env) \<and>
   importVehicleConfiguration example_env (exportVehicleConfiguration example_store)
     example_store = (Success, example_store)"
proof -
  have b: "isKnownId (to_string example_env (vehicle_field example_store ''body''))
     (vehicles example_env)"
    by (simp add: example_store_field isKnownId_def example_env_simps example_vehicles_def
        fmlookup_of_list)
  from export_import_roundtrip [of example_env example_store] b
  show ?thesis by simp
qed

text \<open>
  Claim C9 as stated fails on a configuration that the agent path reaches: an agent response
  whose final state names a body outside the catalog is synced unchecked, and re-importing
  the export of that configuration is refused.
\<close>

theorem unknown_body_breaks_roundtrip:
  "processAgentResponse example_env ghost_response example_store =
     Inr (True, setVehicle ghost_state example_store) \<and>
   importVehicleConfiguration example_env
     (exportVehicleConfiguration (setVehicle ghost_state example_store))
     (setVehicle ghost_state example_store) =
     (Failure [InvalidVehicleModel (JStr ''ghost'')], setVehicle ghost_state example_store)"
proof -
  have a: "processAgentResponse example_env ghost_response example_store =
     Inr (True, setVehicle ghost_state example_store)"
    by (simp add: processAgentResponse_def ghost_response_def own_obj Let_def
        length_positive_def syncVehicleState_def ghost_state_def)
  have b: "vehicle_field (setVehicle ghost_state example_store) ''body'' = JStr ''ghost''"
    by (simp add: vehicle_field_def own_def setVehicle_def ghost_state_def props_of_def)
  have c: "own (exportVehicleConfiguration (setVehicle ghost_state example_store)) ''body'' =
             JStr ''ghost''"
    using b by (simp add: exportVehicleConfiguration_def vehicle_field_def)
  have d: "importVehicleConfiguration example_env
     (exportVehicleConfiguration (setVehicle ghost_state example_store))
     (setVehicle ghost_state example_store) =
     (Failure [InvalidVehicleModel (JStr ''ghost'')], setVehicle ghost_state example_store)"
    by (simp add: importVehicleConfiguration_def setVehicleConfiguration_def c example_lookups)
      (simp add: exportVehicleConfiguration_def)
  show ?thesis using a d by blast
qed

subsection \<open>Saved vehicles\<close>

text \<open>
  Claim C10. When the saved-vehicles collection has a truthy \<open>current\<close> pointer \<open>p\<close>,
  \<open>loadSavedVehicle("current")\<close> finds the pointer entry itself: it succeeds with \<open>p\<close> as
  data and sets the pointer to the string \<open>"current"\<close>.
\<close>

theorem loadSavedVehicle_current:
  assumes "fmlookup (savedVehicles s) ''current'' = Some p" and "truthy p"
  shows "loadSavedVehicle env (JStr ''current'') s =
           (Loaded p, s\<lparr>savedVehicles := fmupd ''current'' (JStr ''current'') (savedVehicles s)\<rparr>)"
  using assms by (simp add: loadSavedVehicle_def Let_def lookup_key_def setSavedVehicles_def)

text \<open>
  The theorem at a collection with one saved vehicle.
\<close>

theorem loadSavedVehicle_current_witness:
  "loadSavedVehicle example_env (JStr ''current'')
     \<lparr>currentVehicle = example_defaults, savedVehicles = example_saved\<rparr> =
   (Loaded (JStr ''vehicle_1700000000000''),
    \<lparr>currentVehicle = example_defaults,
     savedVehicles = fmupd ''current'' (JStr ''current'') example_saved\<rparr>)"
proof -
  have a: "fmlookup (savedVehicles \<lparr>currentVehicle = example_defaults,
              savedVehicles = example_saved\<rparr>) ''current'' = Some (JStr ''vehicle_1700000000000'')"
    by (simp add: example_saved_def)
  have b: "truthy (JStr ''vehicle_1700000000000'')" by simp
  from loadSavedVehicle_current [OF a b, of example_env] show ?thesis by simp
qed

section \<open>Properties of the decal placement\<close>

lemma find_map_update:
  assumes "find (\<lambda>e. decal_id e = i) ds = Some d" "\<And>e. decal_id (f e) = decal_id e"
  shows "find (\<lambda>e. decal_id e = i) (map (\<lambda>e. if decal_id e = i then f e else e) ds) = Some (f d)"
  using assms(1)
proof (induction ds)
  case Nil
  then show ?case by simp
next
  case (Cons e ds)
  then show ?case by (auto simp: assms(2))
qed

lemma find_Some_id: "find (\<lambda>e. decal_id e = i) ds = Some d \<Longrightarrow> decal_id d = i \<and> ds \<noteq> []"
  by (induction ds) (auto split: if_splits)

lemma map_update_others:
  "e \<in> set ds \<Longrightarrow> decal_id e \<noteq> i \<Longrightarrow>
   e \<in> set (map (\<lambda>e. if decal_id e = i then f e else e) ds)"
  by (induction ds) auto

text \<open>
  Claim C8. Take a left click on the canvas that hits a face of the vehicle mesh, and let the
  click target the decal \<open>d\<close>: either placement mode is on and \<open>d\<close> has the id of the most
  recent decal, or placement mode is off and \<open>d\<close> is selected. Let the z rotation of \<open>d\<close> be
  a number. Then after the click the decal has the hit point as position, the world-space
  normal as normal, the x and y angles that the library derives from that normal, and its
  former z rotation; its other fields and the other decals are as before.
\<close>

theorem handleClick_preserves_spin:
  assumes click: "button event = 0" "on_canvas event"
      "intersection event = Some (point, Some face_normal)"
    and target: "find (\<lambda>e. decal_id e = i) (decals st) = Some d" "i \<noteq> []"
    and mode: "(placementMode st \<and> decal_id (last (decals st)) = i) \<or>
               (\<not> placementMode st \<and> selectedDecalId st = Some i)"
    and spin: "vec_z (rotation d) \<noteq> NaN"
  shows "find (\<lambda>e. decal_id e = i) (decals (handleClick lib event st)) =
           Some (d\<lparr>position := point,
                   rotation := \<lparr>vec_x = vec_x (eulerFromNormal lib (worldNormal lib face_normal)),
                                vec_y = vec_y (eulerFromNormal lib (worldNormal lib face_normal)),
                                vec_z = vec_z (rotation d)\<rparr>,
                   normal := worldNormal lib face_normal\<rparr>)
       \<and> (\<forall>e \<in> set (decals st). decal_id e \<noteq> i \<longrightarrow> e \<in> set (decals (handleClick lib event st)))"
proof -
  let ?n = "worldNormal lib face_normal"
  let ?o = "eulerFromNormal lib ?n"
  let ?r = "\<lparr>vec_x = vec_x ?o, vec_y = vec_y ?o, vec_z = vec_z (rotation d)\<rparr>"
  let ?f = "\<lambda>e. e\<lparr>position := point, rotation := ?r, normal := ?n\<rparr>"
  from find_Some_id [OF target(1)] have ne: "decals st \<noteq> []" by simp
  have z: "num_or_zero (vec_z (rotation d)) = vec_z (rotation d)"
    using spin by (simp add: num_or_zero_def)
  have ds: "decals (handleClick lib event st) =
              map (\<lambda>e. if decal_id e = i then ?f e else e) (decals st)"
  proof (cases "placementMode st")
    case True
    with mode have l: "decal_id (last (decals st)) = i" by simp
    show ?thesis
      by (simp add: handleClick_def Let_def id_truthy_def updateDecal_def z click True ne l
          target)
  next
    case False
    with mode have sel: "selectedDecalId st = Some i" by simp
    show ?thesis
      by (simp add: handleClick_def Let_def id_truthy_def updateDecal_def z click False sel
          target)
  qed
  show ?thesis
    unfolding ds
    using find_map_update [OF target(1), of ?f] map_update_others [of _ "decals st" i ?f]
    by simp
qed


text \<open>
  The theorem at a decal with a spin of 45 degrees that is moved to a face whose normal is
  the x axis.
\<close>

theorem handleClick_preserves_spin_witness:
  "find (\<lambda>e. decal_id e = ''decal_1700000000000'')
     (decals (handleClick example_three example_click example_decal_state)) =
   Some (example_decal
          \<lparr>position := \<lparr>vec_x = Fin 1, vec_y = Fin 0.5, vec_z = Fin 0\<rparr>,
           rotation := \<lparr>vec_x = Fin 0, vec_y = Fin (pi / 2), vec_z = Fin (pi / 4)\<rparr>,
           normal := \<lparr>vec_x = Fin 1, vec_y = Fin 0, vec_z = Fin 0\<rparr>\<rparr>)"
proof -
  have c: "button example_click = 0" "on_canvas example_click"
    "intersection example_click =
       Some (\<lparr>vec_x = Fin 1, vec_y = Fin 0.5, vec_z = Fin 0\<rparr>,
             Some \<lparr>vec_x = Fin 1, vec_y = Fin 0, vec_z = Fin 0\<rparr>)"
    by (simp_all add: example_click_def)
  have t: "find (\<lambda>e. decal_id e = ''decal_1700000000000'') (decals example_decal_state) =
             Some example_decal"
    by (simp add: example_decal_state_def example_decal_def)
  have i: "''decal_1700000000000'' \<noteq> []" by simp
  have m: "(placementMode example_decal_state \<and>
            decal_id (last (decals example_decal_state)) = ''decal_1700000000000'') \<or>
           (\<not> placementMode example_decal_state \<and>
            selectedDecalId example_decal_state = Some ''decal_1700000000000'')"
    by (simp add: example_decal_state_def)
  have z: "vec_z (rotation example_decal) \<noteq> NaN"
    by (simp add: example_decal_def)
  have r: "vec_z (rotation example_decal) = Fin (pi / 4)"
    by (simp add: example_decal_def)
  from handleClick_preserves_spin [OF c t i m z, of example_three]
  show ?thesis by (simp add: example_three_def r)
qed

end
